theory Spec2Isabelle
  imports
    Complex_Main
    "HOL-Library.AList"
    "HOL-Library.Char_ord"
    "HOL-Library.List_Lexorder"
    "HOL-Library.Log_Nat"
    "HOL-Library.Multiset"
begin

section \<open>InfluxDB payload formatting of fvhiot/database/influxdb.py\<close>

text \<open>
  The module formats one measurement either as an InfluxDB line-protocol string
  (\<^verbatim>\<open>create_influxdb_line\<close>) or as a measurement dict (\<^verbatim>\<open>create_influxdb_dict\<close>),
  and hands a payload to the database client (\<^verbatim>\<open>write_data\<close>). Both formatters
  mutate the dicts they are given, so the dicts live in an explicit store and the
  functions take and return references into it.
\<close>

subsection \<open>Python values\<close>

text \<open>
  A Python \<^verbatim>\<open>float\<close> is a binary64 value: a finite one is the rational it denotes
  (\<open>Finite 0\<close> is \<^verbatim>\<open>0.0\<close>), the others are \<^verbatim>\<open>-0.0\<close>, the infinities and NaN.
\<close>

datatype pyfloat = Finite rat | NegZero | PosInf | NegInf | NaN

datatype pyval = PNone | PBool bool | PInt int | PFloat pyfloat | PStr string

datatype error = TypeError | ValueError | OverflowError

text \<open>
  A dict is its list of items in insertion order (keys are strings and occur once);
  the store is the list of all dicts, a reference is an index into it.
\<close>

type_synonym pydict = "(string \<times> pyval) list"
type_synonym addr = nat
type_synonym heap = "pydict list"

text \<open>
  What the interpreter supplies and this module only calls: the parser behind
  \<^verbatim>\<open>float(str)\<close> (\<open>None\<close> where it raises ValueError) and the shortest
  round-trip digits \<^verbatim>\<open>repr\<close> prints for a finite float that is not an integer
  below \<open>10^16\<close>.
\<close>

record runtime =
  float_of_str :: "string \<Rightarrow> pyfloat option"
  repr_other :: "rat \<Rightarrow> string"

text \<open>
  The clock: the value \<^verbatim>\<open>time.time()\<close> returns (a finite float) and the instant, in
  microseconds since 1970-01-01T00:00:00Z, that \<^verbatim>\<open>datetime.datetime.now\<close> reads.
\<close>

record datetime =
  instant_us :: int
  utcoffset_us :: int

record env =
  time_time :: rat
  now_us :: int

subsection \<open>binary64 arithmetic\<close>

text \<open>
  Round to nearest, ties to even, at 53 bits of precision. The exponent range is not
  bounded here: the callers below stay far inside it or check the bound themselves.
\<close>

definition round_half_even :: "rat \<Rightarrow> int" where
  "round_half_even x =
     (let f = \<lfloor>x\<rfloor>; d = x - of_int f
      in if d < 1 / 2 then f else if 1 / 2 < d then f + 1 else if even f then f else f + 1)"

definition float_exponent :: "rat \<Rightarrow> int" where
  "float_exponent x =
     (let (p, q) = quotient_of \<bar>x\<bar>; d = bitlen p - bitlen q
      in if 2 powi d \<le> \<bar>x\<bar> then d else d - 1)"

definition fl :: "rat \<Rightarrow> rat" where
  "fl x =
     (if x = 0 then 0
      else let e = float_exponent x - 52
           in of_int (round_half_even (x / 2 powi e)) * 2 powi e)"

text \<open>\<^verbatim>\<open>int(x)\<close> of a finite float truncates towards zero.\<close>

definition py_int_of_float :: "rat \<Rightarrow> int" where
  "py_int_of_float x = (if 0 \<le> x then \<lfloor>x\<rfloor> else \<lceil>x\<rceil>)"

text \<open>
  \<^verbatim>\<open>float(v)\<close>: None is a TypeError, a bool is 0.0 or 1.0, an int is rounded to
  the nearest float (OverflowError beyond the largest one), a float is itself, a string
  is parsed.
\<close>

definition float_of_int :: "int \<Rightarrow> error + pyfloat" where
  "float_of_int n =
     (let x = fl (of_int n) in if 2 ^ 1024 \<le> \<bar>x\<bar> then Inl OverflowError else Inr (Finite x))"

fun py_float :: "runtime \<Rightarrow> pyval \<Rightarrow> error + pyfloat" where
  "py_float rt PNone = Inl TypeError"
| "py_float rt (PBool b) = Inr (Finite (if b then 1 else 0))"
| "py_float rt (PInt n) = float_of_int n"
| "py_float rt (PFloat x) = Inr x"
| "py_float rt (PStr s) = (case float_of_str rt s of None \<Rightarrow> Inl ValueError | Some x \<Rightarrow> Inr x)"

subsection \<open>Text of values\<close>

text \<open>\<^verbatim>\<open>str(n)\<close> of an int: its decimal digits, with a minus sign when negative.\<close>

definition digit_char :: "int \<Rightarrow> char" where
  "digit_char d = ''0123456789'' ! nat d"

function str_nat :: "int \<Rightarrow> string" where
  "str_nat n = (if n < 10 then [digit_char n] else str_nat (n div 10) @ [digit_char (n mod 10)])"
  by pat_completeness auto
termination
  by (relation "measure nat") auto

declare str_nat.simps [simp del]

definition str_int :: "int \<Rightarrow> string" where
  "str_int n = (if n < 0 then ''-'' @ str_nat (- n) else str_nat n)"

text \<open>
  \<^verbatim>\<open>repr\<close> of a float: an integral value below \<open>10^16\<close> prints as its decimal
  digits followed by \<^verbatim>\<open>.0\<close>.
\<close>

fun float_repr :: "runtime \<Rightarrow> pyfloat \<Rightarrow> string" where
  "float_repr rt (Finite x) =
     (if of_int \<lfloor>x\<rfloor> = x \<and> \<bar>x\<bar> < 10 ^ 16 then str_int \<lfloor>x\<rfloor> @ ''.0'' else repr_other rt x)"
| "float_repr rt NegZero = ''-0.0''"
| "float_repr rt PosInf = ''inf''"
| "float_repr rt NegInf = ''-inf''"
| "float_repr rt NaN = ''nan''"

text \<open>What an f-string prints for a value, \<^verbatim>\<open>f"{v}"\<close>.\<close>

fun py_str :: "runtime \<Rightarrow> pyval \<Rightarrow> string" where
  "py_str rt PNone = ''None''"
| "py_str rt (PBool b) = (if b then ''True'' else ''False'')"
| "py_str rt (PInt n) = str_int n"
| "py_str rt (PFloat x) = float_repr rt x"
| "py_str rt (PStr s) = s"

text \<open>\<^verbatim>\<open>f"{i[0]}={i[1]}"\<close>\<close>

definition kv_str :: "runtime \<Rightarrow> string \<times> pyval \<Rightarrow> string" where
  "kv_str rt i = fst i @ ''='' @ py_str rt (snd i)"

text \<open>\<^verbatim>\<open>sep.join(xs)\<close>\<close>

fun join :: "string \<Rightarrow> string list \<Rightarrow> string" where
  "join sep [] = []"
| "join sep [x] = x"
| "join sep (x # y # ys) = x @ sep @ join sep (y # ys)"

text \<open>
  \<^verbatim>\<open>sorted(list(d.items()))\<close>: the items are (key, value) tuples and no two have the
  same key, so the tuple comparison is decided by the keys; strings compare
  lexicographically by character code.
\<close>

definition sorted_items :: "pydict \<Rightarrow> pydict" where
  "sorted_items d = sort_key fst d"

subsection \<open>Timestamps\<close>

text \<open>
  The timestamp is a timezone-aware \<^verbatim>\<open>datetime\<close>, as the docstrings ask: an instant,
  in microseconds since 1970-01-01T00:00:00Z, and the UTC offset of its zone (a
  \<^verbatim>\<open>datetime\<close> lies in the years 1 to 9999 on the clocks of its zone).
  \<^verbatim>\<open>timestamp()\<close> is the float quotient of the microseconds by \<open>10^6\<close>; \<^verbatim>\<open>isoformat()\<close>
  prints the date and time of day in the zone, the microseconds when there are some,
  and the offset.

  \<^verbatim>\<open>astimezone(ZoneInfo("UTC"))\<close> keeps the instant and sets the offset to zero. The
  result is a \<^verbatim>\<open>datetime\<close> again, so the instant has to lie between
  0001-01-01T00:00:00Z and 9999-12-31T23:59:59.999999Z: outside, \<^verbatim>\<open>astimezone\<close> raises
  OverflowError (0001-01-01T00:00:00+02:00 is two hours before the first, and
  9999-12-31T23:00:00-02:00 an hour after the last).
\<close>

definition min_instant_us :: int where
  "min_instant_us = - 62135596800000000"

definition max_instant_us :: int where
  "max_instant_us = 253402300799999999"

definition astimezone_utc :: "datetime \<Rightarrow> error + datetime" where
  "astimezone_utc t =
     (if min_instant_us \<le> instant_us t \<and> instant_us t \<le> max_instant_us
      then Inr (t\<lparr>utcoffset_us := 0\<rparr>) else Inl OverflowError)"

definition timestamp_float :: "datetime \<Rightarrow> rat" where
  "timestamp_float t = fl (of_int (instant_us t) / 10 ^ 6)"

definition zfill :: "nat \<Rightarrow> string \<Rightarrow> string" where
  "zfill w s = replicate (w - length s) CHR ''0'' @ s"

text \<open>The proleptic Gregorian date of a day number (day 0 is 1970-01-01).\<close>

definition civil_from_days :: "int \<Rightarrow> int \<times> int \<times> int" where
  "civil_from_days days =
     (let z = days + 719468;
          era = z div 146097;
          doe = z mod 146097;
          yoe = (doe - doe div 1460 + doe div 36524 - doe div 146096) div 365;
          doy = doe - (365 * yoe + yoe div 4 - yoe div 100);
          mp = (5 * doy + 2) div 153;
          d = doy - (153 * mp + 2) div 5 + 1;
          m = (if mp < 10 then mp + 3 else mp - 9);
          y = yoe + era * 400
      in (if m \<le> 2 then y + 1 else y, m, d))"

definition format_offset :: "int \<Rightarrow> string" where
  "format_offset off =
     (let a = \<bar>off\<bar>;
          hh = a div 3600000000;
          mm = a div 60000000 mod 60;
          ss = a div 1000000 mod 60;
          us = a mod 1000000
      in (if off < 0 then ''-'' else ''+'')
         @ zfill 2 (str_int hh) @ '':'' @ zfill 2 (str_int mm)
         @ (if ss \<noteq> 0 \<or> us \<noteq> 0 then '':'' @ zfill 2 (str_int ss) else [])
         @ (if us \<noteq> 0 then ''.'' @ zfill 6 (str_int us) else []))"

definition isoformat :: "datetime \<Rightarrow> string" where
  "isoformat t =
     (let loc = instant_us t + utcoffset_us t;
          (y, m, d) = civil_from_days (loc div 86400000000);
          r = loc mod 86400000000;
          us = r mod 1000000
      in zfill 4 (str_int y) @ ''-'' @ zfill 2 (str_int m) @ ''-'' @ zfill 2 (str_int d)
         @ ''T'' @ zfill 2 (str_int (r div 3600000000))
         @ '':'' @ zfill 2 (str_int (r div 60000000 mod 60))
         @ '':'' @ zfill 2 (str_int (r div 1000000 mod 60))
         @ (if us \<noteq> 0 then ''.'' @ zfill 6 (str_int us) else [])
         @ format_offset (utcoffset_us t))"

subsection \<open>The formatters\<close>

text \<open>
  \<^verbatim>\<open>time_int\<close> as the first lines of \<^verbatim>\<open>create_influxdb_line\<close> compute it: from the
  clock when no timestamp is given; else the timestamp is moved to UTC, which may
  raise, and \<^verbatim>\<open>time_int\<close> is \<^verbatim>\<open>int(timestamp.timestamp() * 10**9)\<close>.
\<close>

definition time_int :: "env \<Rightarrow> datetime option \<Rightarrow> error + int" where
  "time_int ev timestamp =
     (case timestamp of
        None \<Rightarrow> Inr (py_int_of_float (fl (time_time ev * 10 ^ 9)))
      | Some t \<Rightarrow>
          (case astimezone_utc t of
             Inl e \<Rightarrow> Inl e
           | Inr u \<Rightarrow> Inr (py_int_of_float (fl (timestamp_float u * 10 ^ 9)))))"

text \<open>
  \<^verbatim>\<open>for k, v in fields.items(): fields[k] = float(v)\<close> on the dict at \<open>a\<close>: each
  item is visited once, in order, and its value replaced in the store; the first
  value \<^verbatim>\<open>float\<close> rejects ends the loop with the error, the earlier items staying
  converted.
\<close>

fun float_fields :: "runtime \<Rightarrow> pydict \<Rightarrow> addr \<Rightarrow> heap \<Rightarrow> error option \<times> heap" where
  "float_fields rt [] a h = (None, h)"
| "float_fields rt ((k, v) # kvs) a h =
     (case py_float rt v of
        Inl e \<Rightarrow> (Some e, h)
      | Inr x \<Rightarrow> float_fields rt kvs a (h[a := AList.update k (PFloat x) (h ! a)]))"

text \<open>
  An error of the first lines leaves the function before anything is written to the
  store; an error of the loop leaves it after the tags dict and the earlier fields
  have been updated.
\<close>

definition create_influxdb_line ::
  "runtime \<Rightarrow> env \<Rightarrow> string \<Rightarrow> string \<Rightarrow> addr \<Rightarrow> addr option \<Rightarrow> datetime option \<Rightarrow> heap
     \<Rightarrow> (error + string) \<times> heap" where
  "create_influxdb_line rt ev dev_id measurement_name fields_arg tags_arg timestamp h =
     (case time_int ev timestamp of
        Inl e \<Rightarrow> (Inl e, h)
      | Inr t_int \<Rightarrow>
          (let (tags', h0) = (case tags_arg of None \<Rightarrow> (length h, h @ [[]]) | Some ta \<Rightarrow> (ta, h));
               h1 = h0[tags' := AList.update ''dev-id'' (PStr dev_id) (h0 ! tags')];
               tag_str = join '','' (map (kv_str rt) (sorted_items (h1 ! tags')))
           in case float_fields rt (h1 ! fields_arg) fields_arg h1 of
                (Some e, h2) \<Rightarrow> (Inl e, h2)
              | (None, h2) \<Rightarrow>
                  (let field_str = join '','' (map (kv_str rt) (sorted_items (h2 ! fields_arg)))
                   in (Inr (measurement_name @ '','' @ tag_str @ '' '' @ field_str @ '' ''
                             @ str_int t_int), h2))))"

text \<open>The dict \<^verbatim>\<open>create_influxdb_dict\<close> returns, with its four keys; the values under
  \<^verbatim>\<open>"tags"\<close> and \<^verbatim>\<open>"fields"\<close> are references.\<close>

record measurement_dict =
  d_measurement :: string
  d_tags :: addr
  d_fields :: addr
  d_time :: string

text \<open>
  The first lines of \<^verbatim>\<open>create_influxdb_dict\<close> compute \<^verbatim>\<open>time_int\<close> in the same way,
  without using it, and leave in \<^verbatim>\<open>timestamp\<close> the timestamp moved to UTC, or
  \<^verbatim>\<open>datetime.datetime.now(ZoneInfo("UTC"))\<close> when none is given.
\<close>

definition create_influxdb_dict ::
  "env \<Rightarrow> string \<Rightarrow> string \<Rightarrow> addr \<Rightarrow> addr option \<Rightarrow> datetime option \<Rightarrow> heap
     \<Rightarrow> (error + measurement_dict) \<times> heap" where
  "create_influxdb_dict ev dev_id measurement_name fields_arg tags_arg timestamp h =
     (case (case timestamp of
              None \<Rightarrow>
                Inr (py_int_of_float (fl (time_time ev * 10 ^ 9)),
                     \<lparr>instant_us = now_us ev, utcoffset_us = 0\<rparr>)
            | Some t \<Rightarrow>
                (case astimezone_utc t of
                   Inl e \<Rightarrow> Inl e
                 | Inr u \<Rightarrow> Inr (py_int_of_float (fl (timestamp_float u * 10 ^ 9)), u))) of
        Inl e \<Rightarrow> (Inl e, h)
      | Inr (t_int, ts) \<Rightarrow>
          (let (tags', h0) = (case tags_arg of None \<Rightarrow> (length h, h @ [[]]) | Some ta \<Rightarrow> (ta, h));
               h1 = h0[tags' := AList.update ''dev-id'' (PStr dev_id) (h0 ! tags')]
           in (Inr \<lparr>d_measurement = measurement_name, d_tags = tags', d_fields = fields_arg,
                    d_time = isoformat ts\<rparr>, h1)))"

subsection \<open>The write\<close>

text \<open>
  The client is outside the module. Of each of its three calls only the outcome
  matters (\<open>None\<close>: it returns; \<open>Some e\<close>: it raises \<open>e\<close>); the calls made are
  recorded in order.
\<close>

datatype 'p event = Write_api | Write string string 'p | Close

record ('p, 'e) client =
  write_api_raises :: "'e option"
  write_raises :: "string \<Rightarrow> string \<Rightarrow> 'p \<Rightarrow> 'e option"
  close_raises :: "'e option"

definition write_data ::
  "('p, 'e) client \<Rightarrow> string \<Rightarrow> string \<Rightarrow> 'p \<Rightarrow> 'e option \<times> 'p event list" where
  "write_data cl bucket org data_obj =
     (case write_api_raises cl of
        Some e \<Rightarrow> (Some e, [Write_api])
      | None \<Rightarrow>
          (case write_raises cl bucket org data_obj of
             Some e \<Rightarrow> (Some e, [Write_api, Write bucket org data_obj])
           | None \<Rightarrow>
               (case close_raises cl of
                  Some e \<Rightarrow> (Some e, [Write_api, Write bucket org data_obj, Close])
                | None \<Rightarrow> (None, [Write_api, Write bucket org data_obj, Close]))))"

subsection \<open>Vocabulary of the statements\<close>

text \<open>
  A reference is good when it points into the store, at a dict whose keys occur once.
  A call is good when its fields reference is and its tags reference, if given, is.
\<close>

definition dict_ok :: "heap \<Rightarrow> addr \<Rightarrow> bool" where
  "dict_ok h a \<longleftrightarrow> a < length h \<and> distinct (map fst (h ! a))"

definition call_ok :: "heap \<Rightarrow> addr \<Rightarrow> addr option \<Rightarrow> bool" where
  "call_ok h fa tags_arg \<longleftrightarrow>
     dict_ok h fa \<and> (case tags_arg of None \<Rightarrow> True | Some ta \<Rightarrow> dict_ok h ta)"

text \<open>
  A timestamp the first lines accept: none, or one whose instant is a \<^verbatim>\<open>datetime\<close> in
  UTC.
\<close>

definition utc_ok :: "datetime option \<Rightarrow> bool" where
  "utc_ok timestamp =
     (case timestamp of
        None \<Rightarrow> True
      | Some t \<Rightarrow> min_instant_us \<le> instant_us t \<and> instant_us t \<le> max_instant_us)"

text \<open>The items of the tags argument as the caller passes it (none for \<^verbatim>\<open>None\<close>).\<close>

definition tags_items :: "heap \<Rightarrow> addr option \<Rightarrow> pydict" where
  "tags_items h tags_arg = (case tags_arg of None \<Rightarrow> [] | Some ta \<Rightarrow> h ! ta)"

text \<open>
  The reference the local variable \<^verbatim>\<open>tags\<close> holds once \<^verbatim>\<open>None\<close> has been replaced
  by a new dict, and the store once \<^verbatim>\<open>tags.update({"dev-id": dev_id})\<close> has run.
\<close>

definition tags_ref :: "heap \<Rightarrow> addr option \<Rightarrow> addr" where
  "tags_ref h tags_arg = (case tags_arg of None \<Rightarrow> length h | Some ta \<Rightarrow> ta)"

definition heap_tagged :: "string \<Rightarrow> addr option \<Rightarrow> heap \<Rightarrow> heap" where
  "heap_tagged dev_id tags_arg h =
     (case tags_arg of
        None \<Rightarrow> h @ [[(''dev-id'', PStr dev_id)]]
      | Some ta \<Rightarrow> h[ta := AList.update ''dev-id'' (PStr dev_id) (h ! ta)])"

text \<open>A dict of numeric values: \<^verbatim>\<open>float\<close> accepts every value.\<close>

definition numeric :: "runtime \<Rightarrow> pydict \<Rightarrow> bool" where
  "numeric rt d = list_all (\<lambda>i. \<not> isl (py_float rt (snd i))) d"

text \<open>An item with its value replaced by its float, where it has one.\<close>

definition coerce_item :: "runtime \<Rightarrow> string \<times> pyval \<Rightarrow> string \<times> pyval" where
  "coerce_item rt i = (fst i, case py_float rt (snd i) of Inl e \<Rightarrow> snd i | Inr x \<Rightarrow> PFloat x)"

text \<open>
  The value of a returned measurement dict in a store, as \<^verbatim>\<open>==\<close> compares dicts:
  the nested dicts count as mappings, whatever the order of their items.
\<close>

definition record_value ::
  "heap \<Rightarrow> measurement_dict \<Rightarrow> string \<times> (string \<rightharpoonup> pyval) \<times> (string \<rightharpoonup> pyval) \<times> string" where
  "record_value h r = (d_measurement r, map_of (h ! d_tags r), map_of (h ! d_fields r), d_time r)"

subsection \<open>A sample call\<close>

text \<open>
  A runtime that parses and prints the one fractional number of the samples, a clock
  stopped at 2021-05-01T00:00:00Z, and a store of two dicts: fields
  \<^verbatim>\<open>{"temp": 42, "hum": "21.5"}\<close> at 0 and tags \<^verbatim>\<open>{"site": "lab", "dev-id": "old"}\<close>
  at 1; then the same two dicts filled in the other order.
\<close>

definition sample_runtime :: runtime where
  "sample_runtime =
     \<lparr>float_of_str = (\<lambda>s. if s = ''21.5'' then Some (Finite (43 / 2)) else None),
      repr_other = (\<lambda>x. if x = 43 / 2 then ''21.5'' else ''?'')\<rparr>"

definition sample_env :: env where
  "sample_env = \<lparr>time_time = 1619827200, now_us = 1619827200000000\<rparr>"

definition sample_heap :: heap where
  "sample_heap =
     [[(''temp'', PInt 42), (''hum'', PStr ''21.5'')],
      [(''site'', PStr ''lab''), (''dev-id'', PStr ''old'')]]"

definition sample_heap_reordered :: heap where
  "sample_heap_reordered =
     [[(''hum'', PStr ''21.5''), (''temp'', PInt 42)],
      [(''dev-id'', PStr ''old''), (''site'', PStr ''lab'')]]"

text \<open>
  The same store with a fields value \<^verbatim>\<open>float\<close> rejects, a store whose fields dict is
  \<^verbatim>\<open>{"temp": 42}\<close>, and the timestamp 2021-05-01T02:00:00+02:00.
\<close>

definition sample_heap_wet :: heap where
  "sample_heap_wet =
     [[(''temp'', PInt 42), (''hum'', PStr ''wet'')],
      [(''site'', PStr ''lab''), (''dev-id'', PStr ''old'')]]"

definition sample_heap_temp :: heap where
  "sample_heap_temp = [[(''temp'', PInt 42)]]"

definition sample_timestamp :: datetime where
  "sample_timestamp = \<lparr>instant_us = 1619827200000000, utcoffset_us = 7200000000\<rparr>"

text \<open>
  Two timestamps at the ends of the range: 0001-01-01T00:00:00+02:00 and
  9999-12-31T23:00:00-02:00. And a store whose tags dict has no dev-id.
\<close>

definition sample_first :: datetime where
  "sample_first = \<lparr>instant_us = - 62135604000000000, utcoffset_us = 7200000000\<rparr>"

definition sample_last :: datetime where
  "sample_last = \<lparr>instant_us = 253402304400000000, utcoffset_us = - 7200000000\<rparr>"

definition sample_heap_site :: heap where
  "sample_heap_site = [[(''temp'', PInt 42)], [(''site'', PStr ''lab'')]]"

section \<open>binary64 rounding keeps what it can represent\<close>

lemma round_half_even_of_int: "round_half_even (of_int z) = z"
  by (simp add: round_half_even_def)

lemma float_exponent_le:
  assumes "x \<noteq> 0"
  shows "2 powi float_exponent x \<le> \<bar>x\<bar>"
proof -
  obtain p q where pq: "quotient_of \<bar>x\<bar> = (p, q)"
    by (cases "quotient_of \<bar>x\<bar>")
  have q: "0 < q" using pq by (rule quotient_of_denom_pos)
  have x: "\<bar>x\<bar> = of_int p / of_int q" using pq by (rule quotient_of_div)
  have "0 < \<bar>x\<bar>" using assms by simp
  with x q have p: "0 < p"
    by (simp add: zero_less_divide_iff)
  define d where "d = bitlen p - bitlen q"
  have fe: "float_exponent x = (if 2 powi d \<le> \<bar>x\<bar> then d else d - 1)"
    by (simp add: float_exponent_def pq d_def Let_def)
  have bp: "2 ^ nat (bitlen p - 1) \<le> p" using bitlen_bounds [OF p] by simp
  have bq: "q < 2 ^ nat (bitlen q)" using bitlen_bounds [OF q] by simp
  have p1: "1 \<le> bitlen p" using p bitlen_eq_zero_iff [of p] bitlen_nonneg [of p] by linarith
  have "(2::rat) powi (d - 1) = 2 powi (bitlen p - 1) / 2 powi (bitlen q)"
    unfolding d_def using power_int_diff [of "2::rat" "bitlen p - 1" "bitlen q"]
    by (simp add: algebra_simps)
  also have "\<dots> = 2 ^ nat (bitlen p - 1) / 2 ^ nat (bitlen q)"
    using p1 bitlen_nonneg [of q] by (simp add: power_int_def)
  also have "\<dots> \<le> of_int p / 2 ^ nat (bitlen q)"
  proof -
    have "(of_int (2 ^ nat (bitlen p - 1)) :: rat) \<le> of_int p"
      using bp by (simp only: of_int_le_iff)
    then show ?thesis by (simp add: divide_right_mono)
  qed
  also have "\<dots> \<le> of_int p / of_int q"
  proof -
    have "(of_int q :: rat) \<le> of_int (2 ^ nat (bitlen q))"
      using bq by (simp only: of_int_le_iff)
    then have "(of_int q :: rat) \<le> 2 ^ nat (bitlen q)" by simp
    moreover have "(0::rat) < of_int q" using q by simp
    moreover have "(0::rat) \<le> of_int p" using p by simp
    ultimately show ?thesis by (simp add: frac_le)
  qed
  finally have "(2::rat) powi (d - 1) \<le> \<bar>x\<bar>" using x by simp
  then show ?thesis by (simp add: fe)
qed

lemma fl_exact:
  assumes "\<bar>m\<bar> < 2 ^ 53"
  shows "fl (of_int m * 2 ^ k) = of_int m * 2 ^ k"
proof (cases "m = 0")
  case True
  then show ?thesis by (simp add: fl_def)
next
  case False
  define x :: rat where "x = of_int m * 2 ^ k"
  have x0: "x \<noteq> 0" using False by (simp add: x_def)
  define e where "e = float_exponent x"
  have lo: "2 powi e \<le> \<bar>x\<bar>" unfolding e_def using x0 by (rule float_exponent_le)
  have "\<bar>x\<bar> = of_int \<bar>m\<bar> * 2 ^ k" by (simp add: x_def abs_mult)
  also have "\<dots> < of_int (2 ^ 53) * 2 ^ k"
    using assms by (simp only: mult_less_cancel_right_pos zero_less_power zero_less_numeral of_int_less_iff)
  also have "\<dots> = 2 powi (53 + int k)" by (simp add: power_int_add)
  finally have hi: "\<bar>x\<bar> < 2 powi (53 + int k)" .
  have "(2::rat) powi e < 2 powi (53 + int k)" using lo hi by (rule le_less_trans)
  then have ek: "e < 53 + int k"
    using power_int_le_imp_less_exp [of "2::rat" e "53 + int k"] by simp
  define j where "j = nat (int k - (e - 52))"
  have j: "int j = int k - (e - 52)" using ek by (simp add: j_def)
  have sc: "x / 2 powi (e - 52) = of_int (m * 2 ^ j)"
  proof -
    have "(2::rat) ^ k = 2 powi (int j + (e - 52))" using j by simp
    also have "\<dots> = 2 ^ j * 2 powi (e - 52)" by (simp add: power_int_add)
    finally show ?thesis by (simp add: x_def)
  qed
  have "fl x = of_int (round_half_even (x / 2 powi (e - 52))) * 2 powi (e - 52)"
    using x0 by (simp add: fl_def e_def Let_def)
  also have "\<dots> = of_int (m * 2 ^ j) * 2 powi (e - 52)"
    by (simp only: sc round_half_even_of_int)
  also have "\<dots> = x / 2 powi (e - 52) * 2 powi (e - 52)" by (simp only: sc)
  also have "\<dots> = x" by simp
  finally show ?thesis by (simp add: x_def)
qed

lemma fl_of_int:
  assumes "\<bar>n\<bar> \<le> 2 ^ 53"
  shows "fl (of_int n) = of_int n"
proof (cases "\<bar>n\<bar> = 2 ^ 53")
  case True
  then have "n = 1 * 2 ^ 53 \<or> n = (- 1) * 2 ^ 53" by linarith
  then show ?thesis
  proof
    assume "n = 1 * 2 ^ 53"
    then show ?thesis using fl_exact [of 1 53] by simp
  next
    assume "n = (- 1) * 2 ^ 53"
    then show ?thesis using fl_exact [of "- 1" 53] by simp
  qed
next
  case False
  with assms have "\<bar>n\<bar> < 2 ^ 53" by linarith
  then show ?thesis using fl_exact [of n 0] by simp
qed

lemma float_of_int_exact:
  assumes "\<bar>n\<bar> \<le> 2 ^ 53"
  shows "float_of_int n = Inr (Finite (of_int n))"
proof -
  have "\<bar>of_int n :: rat\<bar> = of_int \<bar>n\<bar>" by simp
  also have "\<dots> \<le> of_int (2 ^ 53)" using assms by (simp only: of_int_le_iff)
  also have "\<dots> < 2 ^ 1024" by simp
  finally have "\<not> (2 ^ 1024 \<le> \<bar>of_int n :: rat\<bar>)" by simp
  then show ?thesis by (simp add: float_of_int_def fl_of_int [OF assms] Let_def)
qed

lemma float_repr_of_int:
  assumes "\<bar>n\<bar> < 10 ^ 16"
  shows "float_repr rt (Finite (of_int n)) = str_int n @ ''.0''"
proof -
  have "\<bar>of_int n :: rat\<bar> = of_int \<bar>n\<bar>" by simp
  also have "\<dots> < of_int (10 ^ 16)" using assms by (simp only: of_int_less_iff)
  finally show ?thesis by simp
qed

lemma fl_nonneg:
  assumes "0 \<le> x"
  shows "0 \<le> fl x"
proof (cases "x = 0")
  case True
  then show ?thesis by (simp add: fl_def)
next
  case False
  define e where "e = float_exponent x - 52"
  have "0 \<le> x / 2 powi e" using assms by simp
  then have "0 \<le> \<lfloor>x / 2 powi e\<rfloor>" by simp
  then have "0 \<le> round_half_even (x / 2 powi e)"
    by (simp add: round_half_even_def Let_def)
  then show ?thesis using False by (simp add: fl_def Let_def e_def)
qed

lemma py_int_of_float_of_int: "py_int_of_float (of_int z) = z"
  by (simp add: py_int_of_float_def)

section \<open>Dicts, the loop and the store\<close>

subsection \<open>Sorted items\<close>

lemma sorted_items_sorted: "sorted (map fst (sorted_items d))"
  by (simp add: sorted_items_def)

lemma set_sorted_items: "set (sorted_items d) = set d"
  by (simp add: sorted_items_def)

lemma distinct_sorted_items:
  "distinct (map fst (sorted_items d)) = distinct (map fst d)"
proof -
  have "mset (map fst (sorted_items d)) = mset (map fst d)"
    by (simp add: sorted_items_def)
  then show ?thesis by (rule mset_eq_imp_distinct_iff)
qed

lemma map_of_sorted_items:
  assumes "distinct (map fst d)"
  shows "map_of (sorted_items d) = map_of d"
  using assms by (simp add: map_of_inject_set distinct_sorted_items set_sorted_items)

lemma sorted_keys_unique:
  assumes "sorted (map fst xs)" and "distinct (map fst xs)"
    and "sorted (map fst ys)" and "distinct (map fst ys)"
    and "set xs = set ys"
  shows "xs = ys"
proof -
  have "set (map fst xs) = set (map fst ys)" using assms(5) by simp
  with assms(1-4) have keys: "map fst xs = map fst ys"
    by (rule sorted_distinct_set_unique)
  have "inj_on fst (set xs)" using assms(2) by (simp add: distinct_map)
  then have "inj_on fst (set xs \<union> set ys)" using assms(5) by simp
  with keys show ?thesis by (simp add: inj_on_map_eq_map)
qed

lemma sorted_items_cong:
  assumes "distinct (map fst xs)" and "distinct (map fst ys)" and "map_of xs = map_of ys"
  shows "sorted_items xs = sorted_items ys"
proof (rule sorted_keys_unique)
  have "set xs = set ys" using assms by (simp add: map_of_inject_set)
  then show "set (sorted_items xs) = set (sorted_items ys)" by (simp add: set_sorted_items)
qed (simp_all add: sorted_items_sorted distinct_sorted_items assms)

subsection \<open>The dev-id entry\<close>

lemma filter_update_key:
  assumes "distinct (map fst d)"
  shows "filter (\<lambda>i. fst i = k) (AList.update k v d) = [(k, v)]"
  using assms
proof (induction d)
  case Nil
  then show ?case by simp
next
  case (Cons p d)
  have "fst p \<noteq> k \<Longrightarrow> filter (\<lambda>i. fst i = k) (AList.update k v d) = [(k, v)]"
    using Cons by simp
  moreover have "fst p = k \<Longrightarrow> filter (\<lambda>i. fst i = k) d = []"
    using Cons.prems by (force simp: filter_empty_conv image_iff)
  ultimately show ?case by (cases p) auto
qed

lemma filter_sorted_items:
  "filter (\<lambda>i. fst i = k) (sorted_items d) = filter (\<lambda>i. fst i = k) d"
  unfolding sorted_items_def by (rule sort_key_stable)

lemma update_middle:
  assumes "k \<notin> fst ` set pre"
  shows "AList.update k v (pre @ (k, w) # rest) = pre @ (k, v) # rest"
  using assms by (induction pre) auto

subsection \<open>The coercion loop\<close>

lemma length_float_fields: "length (snd (float_fields rt kvs a h)) = length h"
  by (induction rt kvs a h rule: float_fields.induct) (auto split: sum.splits)

lemma float_fields_other:
  "b \<noteq> a \<Longrightarrow> snd (float_fields rt kvs a h) ! b = h ! b"
  by (induction rt kvs a h rule: float_fields.induct) (auto split: sum.splits)

lemma float_fields_None: "fst (float_fields rt kvs a h) = None \<longleftrightarrow> numeric rt kvs"
  by (induction rt kvs a h rule: float_fields.induct) (auto simp: numeric_def split: sum.splits)

lemma float_fields_Some:
  "fst (float_fields rt kvs a h) = Some e \<Longrightarrow> \<exists>i \<in> set kvs. py_float rt (snd i) = Inl e"
  by (induction rt kvs a h rule: float_fields.induct) (auto split: sum.splits)

lemma float_fields_numeric:
  assumes "numeric rt kvs" and "a < length h" and "h ! a = pre @ kvs"
    and "distinct (map fst (pre @ kvs))"
  shows "float_fields rt kvs a h = (None, h[a := pre @ map (coerce_item rt) kvs])"
  using assms
proof (induction kvs arbitrary: pre h)
  case Nil
  then have "h[a := pre] = h" by (simp only: list_update_same_conv) simp
  then show ?case by simp
next
  case (Cons p kvs)
  obtain k v where p: "p = (k, v)" by (cases p)
  from Cons.prems(1) obtain x where x: "py_float rt v = Inr x" and rest: "numeric rt kvs"
    by (cases "py_float rt v") (auto simp: numeric_def p)
  have k: "k \<notin> fst ` set pre" using Cons.prems(4) by (auto simp: p)
  define h' where "h' = h[a := AList.update k (PFloat x) (h ! a)]"
  have h'a: "h' ! a = (pre @ [(k, PFloat x)]) @ kvs"
    using Cons.prems(2,3) k by (simp add: h'_def p update_middle)
  have "float_fields rt kvs a h' = (None, h'[a := (pre @ [(k, PFloat x)]) @ map (coerce_item rt) kvs])"
  proof (rule Cons.IH [OF rest _ h'a])
    show "a < length h'" using Cons.prems(2) by (simp add: h'_def)
    show "distinct (map fst ((pre @ [(k, PFloat x)]) @ kvs))" using Cons.prems(4) by (simp add: p)
  qed
  moreover have "coerce_item rt (k, v) = (k, PFloat x)" by (simp add: coerce_item_def x)
  ultimately show ?case by (simp add: p x h'_def)
qed

subsection \<open>The first lines\<close>

lemma time_int_whole:
  assumes "instant_us t = s * 10 ^ 6" and "\<bar>s\<bar> \<le> 4611686018"
  shows "time_int ev (Some t) = Inr (s * 10 ^ 9)"
proof -
  have s53: "\<bar>s\<bar> \<le> 2 ^ 53" using assms(2) by simp
  have "- 4611686018 \<le> s" and "s \<le> 4611686018" using assms(2) by linarith+
  then have range: "min_instant_us \<le> instant_us t \<and> instant_us t \<le> max_instant_us"
    unfolding assms(1) min_instant_us_def max_instant_us_def by simp
  have "timestamp_float (t\<lparr>utcoffset_us := 0\<rparr>) = fl (of_int s)"
    by (simp add: timestamp_float_def assms(1))
  then have ts: "timestamp_float (t\<lparr>utcoffset_us := 0\<rparr>) = of_int s"
    by (simp add: fl_of_int [OF s53])
  have "\<bar>s * 5 ^ 9\<bar> < 2 ^ 53" using assms(2) by (simp add: abs_mult)
  then have "fl (of_int (s * 5 ^ 9) * 2 ^ 9) = of_int (s * 5 ^ 9) * 2 ^ 9"
    by (rule fl_exact)
  moreover have "(of_int (s * 5 ^ 9) * 2 ^ 9 :: rat) = of_int s * 10 ^ 9" by simp
  ultimately have "fl (of_int s * 10 ^ 9) = of_int (s * 10 ^ 9)" by (simp add: mult.commute)
  then show ?thesis
    using range
    by (simp only: time_int_def astimezone_utc_def option.case if_True sum.case ts
        py_int_of_float_of_int simp_thms)
qed

lemma time_int_utc_ok: "(\<exists>n. time_int ev timestamp = Inr n) \<longleftrightarrow> utc_ok timestamp"
  by (cases timestamp) (auto simp: time_int_def utc_ok_def astimezone_utc_def)

lemma time_int_overflow: "\<not> utc_ok timestamp \<Longrightarrow> time_int ev timestamp = Inl OverflowError"
  by (cases timestamp) (auto simp: time_int_def utc_ok_def astimezone_utc_def)

subsection \<open>The store after the tags update\<close>

lemma length_heap_tagged: "length h \<le> length (heap_tagged dev_id tags_arg h)"
  by (cases tags_arg) (simp_all add: heap_tagged_def)

lemma heap_tagged_tags:
  assumes "case tags_arg of None \<Rightarrow> True | Some ta \<Rightarrow> ta < length h"
  shows "heap_tagged dev_id tags_arg h ! tags_ref h tags_arg
         = AList.update ''dev-id'' (PStr dev_id) (tags_items h tags_arg)"
  using assms by (cases tags_arg) (simp_all add: heap_tagged_def tags_ref_def tags_items_def)

lemma heap_tagged_other:
  assumes "a < length h" and "tags_arg \<noteq> Some a"
  shows "heap_tagged dev_id tags_arg h ! a = h ! a"
  using assms by (cases tags_arg) (auto simp: heap_tagged_def nth_append)

subsection \<open>A call that raises in its first lines\<close>

lemma create_influxdb_line_overflow:
  assumes "\<not> utc_ok timestamp"
  shows "create_influxdb_line rt ev dev_id measurement_name fa tags_arg timestamp h
         = (Inl OverflowError, h)"
  by (simp add: create_influxdb_line_def time_int_overflow [OF assms])

lemma create_influxdb_dict_overflow:
  assumes "\<not> utc_ok timestamp"
  shows "create_influxdb_dict ev dev_id measurement_name fa tags_arg timestamp h
         = (Inl OverflowError, h)"
  using assms
  by (cases timestamp) (auto simp: create_influxdb_dict_def utc_ok_def astimezone_utc_def)

subsection \<open>A call that gets past them\<close>

lemma create_influxdb_line_unfold:
  assumes "time_int ev timestamp = Inr n"
  shows "create_influxdb_line rt ev dev_id measurement_name fa tags_arg timestamp h =
     (let h1 = heap_tagged dev_id tags_arg h;
          tag_str = join '','' (map (kv_str rt) (sorted_items (h1 ! tags_ref h tags_arg)))
      in case float_fields rt (h1 ! fa) fa h1 of
           (Some e, h2) \<Rightarrow> (Inl e, h2)
         | (None, h2) \<Rightarrow>
             (Inr (measurement_name @ '','' @ tag_str @ '' ''
                   @ join '','' (map (kv_str rt) (sorted_items (h2 ! fa))) @ '' ''
                   @ str_int n), h2))"
  by (cases tags_arg)
    (simp_all add: create_influxdb_line_def assms heap_tagged_def tags_ref_def Let_def
      split: prod.splits option.splits)

text \<open>The timestamp the record prints.\<close>

lemma create_influxdb_dict_unfold:
  assumes "utc_ok timestamp"
  shows "create_influxdb_dict ev dev_id measurement_name fa tags_arg timestamp h =
     (Inr \<lparr>d_measurement = measurement_name, d_tags = tags_ref h tags_arg, d_fields = fa,
           d_time = isoformat (case timestamp of
                                 None \<Rightarrow> \<lparr>instant_us = now_us ev, utcoffset_us = 0\<rparr>
                               | Some t \<Rightarrow> t\<lparr>utcoffset_us := 0\<rparr>)\<rparr>,
      heap_tagged dev_id tags_arg h)"
  using assms
  by (cases tags_arg; cases timestamp)
    (simp_all add: create_influxdb_dict_def heap_tagged_def tags_ref_def Let_def utc_ok_def
      astimezone_utc_def)

lemma create_influxdb_dict_Inr:
  assumes "fst (create_influxdb_dict ev dev_id measurement_name fa tags_arg timestamp h) = Inr r"
  shows "utc_ok timestamp"
proof (rule ccontr)
  assume "\<not> utc_ok timestamp"
  then have "fst (create_influxdb_dict ev dev_id measurement_name fa tags_arg timestamp h)
             = Inl OverflowError"
    by (simp add: create_influxdb_dict_overflow)
  with assms show False by simp
qed

lemma create_influxdb_line_Inr:
  assumes "fst (create_influxdb_line rt ev dev_id measurement_name fa tags_arg timestamp h) = Inr s"
  shows "\<exists>n. time_int ev timestamp = Inr n"
proof (rule ccontr)
  assume "\<not> (\<exists>n. time_int ev timestamp = Inr n)"
  then have "\<not> utc_ok timestamp" by (simp add: time_int_utc_ok)
  then have "fst (create_influxdb_line rt ev dev_id measurement_name fa tags_arg timestamp h)
             = Inl OverflowError"
    by (simp add: create_influxdb_line_overflow)
  with assms show False by simp
qed

text \<open>The line and the store when every value the loop meets is numeric.\<close>

lemma create_influxdb_line_numeric:
  assumes "fa < length h"
    and "case tags_arg of None \<Rightarrow> True | Some ta \<Rightarrow> ta < length h"
    and "distinct (map fst (heap_tagged dev_id tags_arg h ! fa))"
    and "numeric rt (heap_tagged dev_id tags_arg h ! fa)"
    and "time_int ev timestamp = Inr n"
  shows "create_influxdb_line rt ev dev_id measurement_name fa tags_arg timestamp h =
     (Inr (measurement_name @ '',''
           @ join '','' (map (kv_str rt)
               (sorted_items (AList.update ''dev-id'' (PStr dev_id) (tags_items h tags_arg))))
           @ '' ''
           @ join '','' (map (kv_str rt)
               (sorted_items (map (coerce_item rt) (heap_tagged dev_id tags_arg h ! fa))))
           @ '' '' @ str_int n),
      (heap_tagged dev_id tags_arg h)
        [fa := map (coerce_item rt) (heap_tagged dev_id tags_arg h ! fa)])"
proof -
  define h1 where "h1 = heap_tagged dev_id tags_arg h"
  have len: "fa < length h1"
    using assms(1) length_heap_tagged [of h dev_id tags_arg] by (simp add: h1_def)
  have "float_fields rt (h1 ! fa) fa h1 = (None, h1[fa := [] @ map (coerce_item rt) (h1 ! fa)])"
    using assms(3,4) len by (intro float_fields_numeric) (simp_all add: h1_def)
  then have loop: "float_fields rt (h1 ! fa) fa h1 = (None, h1[fa := map (coerce_item rt) (h1 ! fa)])"
    by simp
  have tags: "h1 ! tags_ref h tags_arg
              = AList.update ''dev-id'' (PStr dev_id) (tags_items h tags_arg)"
    unfolding h1_def using assms(2) by (rule heap_tagged_tags)
  show ?thesis
    unfolding create_influxdb_line_unfold [OF assms(5)] Let_def h1_def [symmetric]
    using len by (simp add: loop tags)
qed

subsection \<open>What a call returns and leaves\<close>

lemma map_of_coerce:
  "map_of (map (coerce_item rt) d) k = map_option (\<lambda>v. snd (coerce_item rt (k, v))) (map_of d k)"
  by (induction d) (auto simp: coerce_item_def split: sum.splits)

lemma map_fst_coerce: "map fst (map (coerce_item rt) d) = map fst d"
  by (induction d) (simp_all add: coerce_item_def)

lemma insort_key_coerce:
  "insort_key fst (coerce_item rt x) (map (coerce_item rt) xs)
     = map (coerce_item rt) (insort_key fst x xs)"
  by (induction xs) (simp_all add: coerce_item_def)

lemma sorted_items_coerce:
  "sorted_items (map (coerce_item rt) d) = map (coerce_item rt) (sorted_items d)"
  by (induction d) (simp_all add: sorted_items_def insort_key_coerce)

lemma numeric_iff: "numeric rt d \<longleftrightarrow> (\<forall>i \<in> set d. \<exists>x. py_float rt (snd i) = Inr x)"
proof -
  have "\<not> isl s \<longleftrightarrow> (\<exists>x. s = Inr x)" for s :: "error + pyfloat"
    by (cases s) simp_all
  then show ?thesis by (simp add: numeric_def list_all_iff)
qed

lemma call_ok_tags:
  "call_ok h fa tags_arg \<Longrightarrow> (case tags_arg of None \<Rightarrow> True | Some ta \<Rightarrow> ta < length h)"
  by (cases tags_arg) (simp_all add: call_ok_def dict_ok_def)

lemma distinct_tags_items:
  "call_ok h fa tags_arg \<Longrightarrow> distinct (map fst (tags_items h tags_arg))"
  by (cases tags_arg) (simp_all add: call_ok_def dict_ok_def tags_items_def)

text \<open>The dict the loop runs over: the fields dict, with dev-id in it when it is also the tags dict.\<close>

lemma loop_dict:
  assumes "call_ok h fa tags_arg"
  shows "heap_tagged dev_id tags_arg h ! fa
         = (if tags_arg = Some fa then AList.update ''dev-id'' (PStr dev_id) (h ! fa) else h ! fa)"
proof (cases "tags_arg = Some fa")
  case True
  then show ?thesis using assms by (simp add: heap_tagged_def call_ok_def dict_ok_def)
next
  case False
  moreover have "fa < length h" using assms by (simp add: call_ok_def dict_ok_def)
  ultimately show ?thesis by (simp add: heap_tagged_other)
qed

lemma distinct_loop_dict:
  assumes "call_ok h fa tags_arg"
  shows "distinct (map fst (heap_tagged dev_id tags_arg h ! fa))"
proof -
  have "distinct (map fst (h ! fa))" using assms by (simp add: call_ok_def dict_ok_def)
  then show ?thesis using assms by (simp add: loop_dict distinct_update)
qed

lemma line_Inr_numeric:
  assumes "fst (create_influxdb_line rt ev dev_id measurement_name fa tags_arg timestamp h) = Inr s"
  shows "numeric rt (heap_tagged dev_id tags_arg h ! fa)"
proof -
  from create_influxdb_line_Inr [OF assms] obtain n where n: "time_int ev timestamp = Inr n" ..
  define h1 where "h1 = heap_tagged dev_id tags_arg h"
  obtain r h2 where ff: "float_fields rt (h1 ! fa) fa h1 = (r, h2)"
    by (cases "float_fields rt (h1 ! fa) fa h1")
  have "r = None"
    using assms unfolding create_influxdb_line_unfold [OF n] Let_def h1_def [symmetric] ff
    by (cases r) simp_all
  then have "fst (float_fields rt (h1 ! fa) fa h1) = None" by (simp add: ff)
  then show ?thesis by (simp add: float_fields_None h1_def)
qed

lemma line_not_numeric:
  assumes "\<not> numeric rt (heap_tagged dev_id tags_arg h ! fa)" and "time_int ev timestamp = Inr n"
  shows "\<exists>e. fst (create_influxdb_line rt ev dev_id measurement_name fa tags_arg timestamp h) = Inl e
           \<and> (\<exists>i \<in> set (heap_tagged dev_id tags_arg h ! fa). py_float rt (snd i) = Inl e)"
proof -
  define h1 where "h1 = heap_tagged dev_id tags_arg h"
  obtain r h2 where ff: "float_fields rt (h1 ! fa) fa h1 = (r, h2)"
    by (cases "float_fields rt (h1 ! fa) fa h1")
  have "fst (float_fields rt (h1 ! fa) fa h1) \<noteq> None"
    using assms(1) by (simp add: float_fields_None h1_def)
  then obtain e where r: "r = Some e" by (cases r) (simp_all add: ff)
  then have "fst (float_fields rt (h1 ! fa) fa h1) = Some e" by (simp add: ff)
  then have "\<exists>i \<in> set (h1 ! fa). py_float rt (snd i) = Inl e" by (rule float_fields_Some)
  moreover have "fst (create_influxdb_line rt ev dev_id measurement_name fa tags_arg timestamp h) = Inl e"
    unfolding create_influxdb_line_unfold [OF assms(2)] Let_def h1_def [symmetric] ff
    by (simp add: r)
  ultimately show ?thesis by (auto simp: h1_def)
qed

text \<open>The store a call of the line formatter leaves once past the first lines, whatever it returns.\<close>

lemma line_heap_other:
  assumes "b \<noteq> fa" and "time_int ev timestamp = Inr n"
  shows "snd (create_influxdb_line rt ev dev_id measurement_name fa tags_arg timestamp h) ! b
         = heap_tagged dev_id tags_arg h ! b"
proof -
  define h1 where "h1 = heap_tagged dev_id tags_arg h"
  obtain r h2 where ff: "float_fields rt (h1 ! fa) fa h1 = (r, h2)"
    by (cases "float_fields rt (h1 ! fa) fa h1")
  have "snd (create_influxdb_line rt ev dev_id measurement_name fa tags_arg timestamp h) = h2"
    unfolding create_influxdb_line_unfold [OF assms(2)] Let_def h1_def [symmetric] ff
    by (cases r) simp_all
  moreover have "h2 ! b = h1 ! b"
    using float_fields_other [OF assms(1), of rt "h1 ! fa" h1] by (simp add: ff)
  ultimately show ?thesis by (simp add: h1_def)
qed

text \<open>The same when the tags dict is another object than the fields dict.\<close>

lemma create_influxdb_line_plain:
  assumes "call_ok h fa tags_arg" and "tags_arg \<noteq> Some fa" and "numeric rt (h ! fa)"
    and "time_int ev timestamp = Inr n"
  shows "create_influxdb_line rt ev dev_id measurement_name fa tags_arg timestamp h =
     (Inr (measurement_name @ '',''
           @ join '','' (map (kv_str rt)
               (sorted_items (AList.update ''dev-id'' (PStr dev_id) (tags_items h tags_arg))))
           @ '' ''
           @ join '','' (map (kv_str rt) (sorted_items (map (coerce_item rt) (h ! fa))))
           @ '' '' @ str_int n),
      (heap_tagged dev_id tags_arg h)[fa := map (coerce_item rt) (h ! fa)])"
proof -
  have fa: "fa < length h" and dist: "distinct (map fst (h ! fa))"
    using assms(1) by (simp_all add: call_ok_def dict_ok_def)
  have same: "heap_tagged dev_id tags_arg h ! fa = h ! fa"
    using fa assms(2) by (rule heap_tagged_other)
  show ?thesis
    using create_influxdb_line_numeric [OF fa call_ok_tags [OF assms(1)] _ _ assms(4), of dev_id rt
        measurement_name]
    by (simp add: same dist assms(3))
qed

lemma isoformat_utc_suffix: "utcoffset_us t = 0 \<Longrightarrow> \<exists>p. isoformat t = p @ ''+00:00''"
proof -
  assume z: "utcoffset_us t = 0"
  have off: "format_offset 0 = ''+00:00''" by code_simp
  obtain y m d where c: "civil_from_days (instant_us t div 86400000000) = (y, m, d)"
    by (cases "civil_from_days (instant_us t div 86400000000)")
  show ?thesis
    by (simp add: isoformat_def z Let_def c off del: append_assoc flip: append_assoc)
qed

subsection \<open>The sample call, evaluated\<close>

lemma sample_call_ok: "call_ok sample_heap 0 (Some 1)"
  by code_simp

lemma sample_numeric: "numeric sample_runtime (sample_heap ! 0)"
  by code_simp

lemma sample_line:
  "create_influxdb_line sample_runtime sample_env ''1234'' ''test'' 0 (Some 1) None sample_heap
     = (Inr ''test,dev-id=1234,site=lab hum=21.5,temp=42.0 1619827200000000000'',
        [[(''temp'', PFloat (Finite 42)), (''hum'', PFloat (Finite (43 / 2)))],
         [(''site'', PStr ''lab''), (''dev-id'', PStr ''1234'')]])"
  by code_simp

lemma sample_dict:
  "create_influxdb_dict sample_env ''1234'' ''test'' 0 (Some 1) None sample_heap
     = (Inr \<lparr>d_measurement = ''test'', d_tags = 1, d_fields = 0,
             d_time = ''2021-05-01T00:00:00+00:00''\<rparr>,
        [[(''temp'', PInt 42), (''hum'', PStr ''21.5'')],
         [(''site'', PStr ''lab''), (''dev-id'', PStr ''1234'')]])"
  by code_simp

text \<open>
  One dict passed as both tags and fields: the loop meets the dev-id entry as well,
  and here \<^verbatim>\<open>float("gw-7")\<close> raises though the one field the caller gave is numeric.
  The statements on the line formatter below take the two dicts to be two objects.
\<close>

lemma sample_shared_dict:
  "create_influxdb_line sample_runtime sample_env ''gw-7'' ''test'' 0 (Some 0) None sample_heap_temp
     = (Inl ValueError, [[(''temp'', PFloat (Finite 42)), (''dev-id'', PStr ''gw-7'')]])"
  by code_simp

subsection \<open>A write that succeeds\<close>

lemma write_data_returns:
  "write_data \<lparr>write_api_raises = None, write_raises = (\<lambda>b g p. None), close_raises = None\<rparr>
       bucket org data_obj
     = (None, [Write_api, Write bucket org data_obj, Close])"
  by (simp add: write_data_def)

section \<open>The epoch value\<close>

text \<open>
  Claim C3, as the code has it. The value the line carries is \<^verbatim>\<open>time_int\<close>, computed
  in double precision and cut towards zero by \<^verbatim>\<open>int\<close>. For a timestamp not before
  the Unix epoch that \<^verbatim>\<open>astimezone\<close> moves to UTC, it is the floor of the double
  product of \<^verbatim>\<open>timestamp()\<close> and \<open>10^9\<close>. For a timestamp that is a whole number \<open>s\<close>
  of seconds from the epoch, \<open>\<bar>s\<bar> \<le> 4611686018\<close>, both the quotient and the product
  are exact and the value is \<open>s * 10^9\<close>; 2021-05-01T00:00:00Z, second 1619827200,
  gives 1619827200000000000.
\<close>

theorem time_int_epoch_ns:
  "(0 \<le> instant_us t \<and> astimezone_utc t = Inr u \<longrightarrow>
      time_int ev (Some t) = Inr \<lfloor>fl (timestamp_float u * 10 ^ 9)\<rfloor>)
   \<and> (instant_us t = s * 10 ^ 6 \<and> \<bar>s\<bar> \<le> 4611686018 \<longrightarrow> time_int ev (Some t) = Inr (s * 10 ^ 9))"
proof (intro conjI impI)
  assume a: "0 \<le> instant_us t \<and> astimezone_utc t = Inr u"
  then have u: "u = t\<lparr>utcoffset_us := 0\<rparr>"
    by (auto simp: astimezone_utc_def split: if_splits)
  have "0 \<le> (of_int (instant_us t) / 10 ^ 6 :: rat)" using a by simp
  then have "0 \<le> timestamp_float u"
    unfolding timestamp_float_def u by (simp add: fl_nonneg)
  then have "0 \<le> timestamp_float u * 10 ^ 9" by simp
  then have "0 \<le> fl (timestamp_float u * 10 ^ 9)" by (rule fl_nonneg)
  then show "time_int ev (Some t) = Inr \<lfloor>fl (timestamp_float u * 10 ^ 9)\<rfloor>"
    using a by (simp add: time_int_def py_int_of_float_def)
next
  assume "instant_us t = s * 10 ^ 6 \<and> \<bar>s\<bar> \<le> 4611686018"
  then show "time_int ev (Some t) = Inr (s * 10 ^ 9)" by (simp add: time_int_whole)
qed

theorem time_int_epoch_ns_witness:
  "isoformat \<lparr>instant_us = 1619827200000000, utcoffset_us = 0\<rparr> = ''2021-05-01T00:00:00+00:00''
   \<and> astimezone_utc \<lparr>instant_us = 1619827200000000, utcoffset_us = 0\<rparr>
       = Inr \<lparr>instant_us = 1619827200000000, utcoffset_us = 0\<rparr>
   \<and> time_int sample_env (Some \<lparr>instant_us = 1619827200000000, utcoffset_us = 0\<rparr>)
       = Inr 1619827200000000000
   \<and> time_int sample_env (Some \<lparr>instant_us = 1619827200000000, utcoffset_us = 0\<rparr>)
       = Inr \<lfloor>fl (timestamp_float \<lparr>instant_us = 1619827200000000, utcoffset_us = 0\<rparr> * 10 ^ 9)\<rfloor>"
proof -
  have iso: "isoformat \<lparr>instant_us = 1619827200000000, utcoffset_us = 0\<rparr>
             = ''2021-05-01T00:00:00+00:00''"
    by code_simp
  have utc: "astimezone_utc \<lparr>instant_us = 1619827200000000, utcoffset_us = 0\<rparr>
             = Inr \<lparr>instant_us = 1619827200000000, utcoffset_us = 0\<rparr>"
    by (simp add: astimezone_utc_def min_instant_us_def max_instant_us_def)
  note th = time_int_epoch_ns [of "\<lparr>instant_us = 1619827200000000, utcoffset_us = 0\<rparr>"
      "\<lparr>instant_us = 1619827200000000, utcoffset_us = 0\<rparr>" sample_env 1619827200]
  from th utc have f: "time_int sample_env (Some \<lparr>instant_us = 1619827200000000, utcoffset_us = 0\<rparr>)
       = Inr \<lfloor>fl (timestamp_float \<lparr>instant_us = 1619827200000000, utcoffset_us = 0\<rparr> * 10 ^ 9)\<rfloor>"
    by simp
  from th have g: "time_int sample_env (Some \<lparr>instant_us = 1619827200000000, utcoffset_us = 0\<rparr>)
       = Inr 1619827200000000000"
    by simp
  from iso utc g f show ?thesis by (intro conjI)
qed

text \<open>
  Claim C3 as stated, with the floor of the seconds times \<open>10^9\<close>, fails before the
  epoch: at 1969-12-31T23:59:58.999999Z, 1000001 microseconds before it, the floor
  is -1000001000, of the exact product and of the double product alike, and the
  value computed is -1000000999.
\<close>

theorem time_int_floor_counterexample:
  "isoformat \<lparr>instant_us = - 1000001, utcoffset_us = 0\<rparr> = ''1969-12-31T23:59:58.999999+00:00''
   \<and> time_int sample_env (Some \<lparr>instant_us = - 1000001, utcoffset_us = 0\<rparr>) = Inr (- 1000000999)
   \<and> \<lfloor>(of_int (- 1000001) / 10 ^ 6 :: rat) * 10 ^ 9\<rfloor> = - 1000001000
   \<and> \<lfloor>fl (timestamp_float \<lparr>instant_us = - 1000001, utcoffset_us = 0\<rparr> * 10 ^ 9)\<rfloor>
       = - 1000001000"
  by code_simp

section \<open>The line-protocol string\<close>

text \<open>
  Claim C1, for a timestamp the first lines accept: none, or one whose instant is a
  \<^verbatim>\<open>datetime\<close> in UTC. For a fields dict of numeric values, kept apart from the tags
  dict, \<^verbatim>\<open>create_influxdb_line\<close> returns the one string
  \<^verbatim>\<open>{measurement_name},{tags} {fields} {epoch_ns}\<close>. The tag segment joins with commas
  the \<^verbatim>\<open>key=value\<close> texts of a list of items sorted ascending by key, with no key
  twice, that is the tags mapping with dev-id set to the device id; the field segment
  does the same for the fields mapping with every value replaced by its float; the
  last part is the decimal text of \<^verbatim>\<open>time_int\<close>.
\<close>

theorem create_influxdb_line_format:
  assumes "call_ok h fa tags_arg" and "tags_arg \<noteq> Some fa" and "numeric rt (h ! fa)"
    and "utc_ok timestamp"
  shows "\<exists>ts fs n.
           time_int ev timestamp = Inr n
           \<and> fst (create_influxdb_line rt ev dev_id measurement_name fa tags_arg timestamp h)
             = Inr (measurement_name @ '','' @ join '','' (map (kv_str rt) ts) @ '' ''
                    @ join '','' (map (kv_str rt) fs) @ '' '' @ str_int n)
           \<and> sorted (map fst ts) \<and> distinct (map fst ts)
           \<and> map_of ts = (map_of (tags_items h tags_arg))(''dev-id'' \<mapsto> PStr dev_id)
           \<and> sorted (map fst fs) \<and> distinct (map fst fs)
           \<and> fst ` set fs = fst ` set (h ! fa)
           \<and> (\<forall>i \<in> set (h ! fa). \<exists>x. py_float rt (snd i) = Inr x
                  \<and> map_of fs (fst i) = Some (PFloat x))"
proof -
  define ts where "ts = sorted_items (AList.update ''dev-id'' (PStr dev_id) (tags_items h tags_arg))"
  define fs where "fs = sorted_items (map (coerce_item rt) (h ! fa))"
  from assms(4) obtain n where n: "time_int ev timestamp = Inr n"
    using time_int_utc_ok [of ev timestamp] by blast
  have fa: "fa < length h" and dist: "distinct (map fst (h ! fa))"
    using assms(1) by (simp_all add: call_ok_def dict_ok_def)
  have "create_influxdb_line rt ev dev_id measurement_name fa tags_arg timestamp h =
     (Inr (measurement_name @ '','' @ join '','' (map (kv_str rt) ts) @ '' ''
           @ join '','' (map (kv_str rt) fs) @ '' '' @ str_int n),
      (heap_tagged dev_id tags_arg h)[fa := map (coerce_item rt) (h ! fa)])"
    unfolding ts_def fs_def using assms(1-3) n by (rule create_influxdb_line_plain)
  then have line: "fst (create_influxdb_line rt ev dev_id measurement_name fa tags_arg timestamp h)
      = Inr (measurement_name @ '','' @ join '','' (map (kv_str rt) ts) @ '' ''
             @ join '','' (map (kv_str rt) fs) @ '' '' @ str_int n)"
    by simp
  have dt: "distinct (map fst (AList.update ''dev-id'' (PStr dev_id) (tags_items h tags_arg)))"
    using distinct_tags_items [OF assms(1)] by (simp add: distinct_update)
  have ts1: "sorted (map fst ts)" by (simp add: ts_def sorted_items_sorted)
  have ts2: "distinct (map fst ts)" using dt by (simp add: ts_def distinct_sorted_items)
  have ts3: "map_of ts = (map_of (tags_items h tags_arg))(''dev-id'' \<mapsto> PStr dev_id)"
    using dt by (simp add: ts_def map_of_sorted_items update_conv')
  have dc: "distinct (map fst (map (coerce_item rt) (h ! fa)))"
    using dist by (simp only: map_fst_coerce)
  have fs1: "sorted (map fst fs)" by (simp add: fs_def sorted_items_sorted)
  have fs2: "distinct (map fst fs)" using dc by (simp add: fs_def distinct_sorted_items)
  have "fst ` set fs = set (map fst (map (coerce_item rt) (h ! fa)))"
    unfolding fs_def set_sorted_items by (simp only: set_map)
  then have fs3: "fst ` set fs = fst ` set (h ! fa)" by (simp only: map_fst_coerce set_map)
  have fs4: "\<exists>x. py_float rt (snd i) = Inr x \<and> map_of fs (fst i) = Some (PFloat x)"
    if i: "i \<in> set (h ! fa)" for i
  proof -
    from assms(3) i obtain x where x: "py_float rt (snd i) = Inr x"
      by (auto simp: numeric_iff)
    have "map_of (h ! fa) (fst i) = Some (snd i)" using dist i by simp
    then have "map_of (map (coerce_item rt) (h ! fa)) (fst i) = Some (PFloat x)"
      by (simp add: map_of_coerce coerce_item_def x)
    then have "map_of fs (fst i) = Some (PFloat x)"
      using dc by (simp add: fs_def map_of_sorted_items)
    with x show ?thesis by blast
  qed
  from n line ts1 ts2 ts3 fs1 fs2 fs3 fs4 show ?thesis by blast
qed

theorem create_influxdb_line_format_witness:
  "call_ok sample_heap 0 (Some 1) \<and> numeric sample_runtime (sample_heap ! 0) \<and> utc_ok None
   \<and> fst (create_influxdb_line sample_runtime sample_env ''1234'' ''test'' 0 (Some 1) None sample_heap)
       = Inr ''test,dev-id=1234,site=lab hum=21.5,temp=42.0 1619827200000000000''
   \<and> (\<exists>ts fs n.
           time_int sample_env None = Inr n
           \<and> fst (create_influxdb_line sample_runtime sample_env ''1234'' ''test'' 0 (Some 1) None sample_heap)
             = Inr (''test'' @ '','' @ join '','' (map (kv_str sample_runtime) ts) @ '' ''
                    @ join '','' (map (kv_str sample_runtime) fs) @ '' '' @ str_int n)
           \<and> sorted (map fst ts) \<and> distinct (map fst ts)
           \<and> map_of ts = (map_of (tags_items sample_heap (Some 1)))(''dev-id'' \<mapsto> PStr ''1234'')
           \<and> sorted (map fst fs) \<and> distinct (map fst fs)
           \<and> fst ` set fs = fst ` set (sample_heap ! 0)
           \<and> (\<forall>i \<in> set (sample_heap ! 0). \<exists>x. py_float sample_runtime (snd i) = Inr x
                  \<and> map_of fs (fst i) = Some (PFloat x)))"
proof -
  have a: "call_ok sample_heap 0 (Some 1)" by (rule sample_call_ok)
  have b: "Some (1::nat) \<noteq> Some 0" by simp
  have c: "numeric sample_runtime (sample_heap ! 0)" by (rule sample_numeric)
  have u: "utc_ok None" by (simp add: utc_ok_def)
  have d: "fst (create_influxdb_line sample_runtime sample_env ''1234'' ''test'' 0 (Some 1) None sample_heap)
       = Inr ''test,dev-id=1234,site=lab hum=21.5,temp=42.0 1619827200000000000''"
    by (simp only: sample_line fst_conv)
  from a c u d create_influxdb_line_format [OF a b c u, of sample_env "''1234''" "''test''"]
  show ?thesis by (intro conjI)
qed

text \<open>
  Claim C1 as stated, for every timestamp, fails at 0001-01-01T00:00:00+02:00, two
  hours before the first \<^verbatim>\<open>datetime\<close> in UTC: with the numeric fields
  \<^verbatim>\<open>{"temp": 42}\<close> the call raises OverflowError and returns no string.
\<close>

theorem create_influxdb_line_format_counterexample:
  "isoformat sample_first = ''0001-01-01T00:00:00+02:00''
   \<and> numeric sample_runtime (sample_heap_temp ! 0)
   \<and> create_influxdb_line sample_runtime sample_env ''1234'' ''test'' 0 None (Some sample_first)
        sample_heap_temp
       = (Inl OverflowError, sample_heap_temp)"
  by code_simp

text \<open>
  Claim C6. In a line that is returned every field is printed as a float: the field
  segment joins, in the order of the keys, the texts \<open>k\<close>=\<open>repr\<close> of the float
  \<^verbatim>\<open>float\<close> makes of the value, whatever the value was. An int \<open>m\<close>,
  \<open>\<bar>m\<bar> \<le> 2^53\<close>, is printed \<open>m\<close>.0; a string is printed as the float it parses to.
  For \<^verbatim>\<open>{"temp": 42}\<close> the segment is \<^verbatim>\<open>temp=42.0\<close>.
\<close>

theorem fields_printed_as_floats:
  assumes "call_ok h fa tags_arg" and "tags_arg \<noteq> Some fa"
    and "fst (create_influxdb_line rt ev dev_id measurement_name fa tags_arg timestamp h) = Inr s"
  shows "(\<exists>fs n.
            time_int ev timestamp = Inr n
            \<and> s = measurement_name @ '',''
                  @ join '','' (map (kv_str rt)
                    (sorted_items (AList.update ''dev-id'' (PStr dev_id) (tags_items h tags_arg))))
                  @ '' '' @ join '','' (map (kv_str rt) fs) @ '' '' @ str_int n
            \<and> list_all2 (\<lambda>i j. fst j = fst i
                   \<and> (\<exists>x. py_float rt (snd i) = Inr x \<and> snd j = PFloat x
                          \<and> kv_str rt j = fst i @ ''='' @ float_repr rt x))
                 (sorted_items (h ! fa)) fs)
       \<and> (\<forall>m. \<bar>m\<bar> \<le> 2 ^ 53 \<longrightarrow>
              py_float rt (PInt m) = Inr (Finite (of_int m))
              \<and> float_repr rt (Finite (of_int m)) = str_int m @ ''.0'')
       \<and> (\<forall>t x. float_of_str rt t = Some x \<longrightarrow> py_float rt (PStr t) = Inr x)"
proof (intro conjI allI impI)
  from create_influxdb_line_Inr [OF assms(3)] obtain n where n: "time_int ev timestamp = Inr n" ..
  have fa: "fa < length h" using assms(1) by (simp add: call_ok_def dict_ok_def)
  have same: "heap_tagged dev_id tags_arg h ! fa = h ! fa"
    using fa assms(2) by (rule heap_tagged_other)
  have num: "numeric rt (h ! fa)" using line_Inr_numeric [OF assms(3)] by (simp only: same)
  define fs where "fs = map (coerce_item rt) (sorted_items (h ! fa))"
  have "fst (create_influxdb_line rt ev dev_id measurement_name fa tags_arg timestamp h)
        = Inr (measurement_name @ '',''
               @ join '','' (map (kv_str rt)
                    (sorted_items (AList.update ''dev-id'' (PStr dev_id) (tags_items h tags_arg))))
               @ '' '' @ join '','' (map (kv_str rt) fs) @ '' '' @ str_int n)"
    unfolding fs_def using assms(1,2) num n
    by (simp add: create_influxdb_line_plain sorted_items_coerce)
  with assms(3) have s: "s = measurement_name @ '',''
               @ join '','' (map (kv_str rt)
                    (sorted_items (AList.update ''dev-id'' (PStr dev_id) (tags_items h tags_arg))))
               @ '' '' @ join '','' (map (kv_str rt) fs) @ '' '' @ str_int n"
    by simp
  have "fst (coerce_item rt i) = fst i
        \<and> (\<exists>x. py_float rt (snd i) = Inr x \<and> snd (coerce_item rt i) = PFloat x
               \<and> kv_str rt (coerce_item rt i) = fst i @ ''='' @ float_repr rt x)"
    if "i \<in> set (sorted_items (h ! fa))" for i
  proof -
    from that have "i \<in> set (h ! fa)" by (simp only: set_sorted_items)
    with num obtain x where "py_float rt (snd i) = Inr x" by (auto simp: numeric_iff)
    then show ?thesis by (simp add: coerce_item_def kv_str_def)
  qed
  then have "list_all2 (\<lambda>i j. fst j = fst i
                   \<and> (\<exists>x. py_float rt (snd i) = Inr x \<and> snd j = PFloat x
                          \<and> kv_str rt j = fst i @ ''='' @ float_repr rt x))
                 (sorted_items (h ! fa)) fs"
    unfolding fs_def by (simp add: list_all2_map2 list_all2_same)
  with n s show "\<exists>fs n.
            time_int ev timestamp = Inr n
            \<and> s = measurement_name @ '',''
                  @ join '','' (map (kv_str rt)
                    (sorted_items (AList.update ''dev-id'' (PStr dev_id) (tags_items h tags_arg))))
                  @ '' '' @ join '','' (map (kv_str rt) fs) @ '' '' @ str_int n
            \<and> list_all2 (\<lambda>i j. fst j = fst i
                   \<and> (\<exists>x. py_float rt (snd i) = Inr x \<and> snd j = PFloat x
                          \<and> kv_str rt j = fst i @ ''='' @ float_repr rt x))
                 (sorted_items (h ! fa)) fs"
    by blast
next
  fix m :: int
  assume m: "\<bar>m\<bar> \<le> 2 ^ 53"
  then show "py_float rt (PInt m) = Inr (Finite (of_int m))" by (simp add: float_of_int_exact)
  from m have "\<bar>m\<bar> < 10 ^ 16" by simp
  then show "float_repr rt (Finite (of_int m)) = str_int m @ ''.0''" by (rule float_repr_of_int)
next
  fix t x
  assume "float_of_str rt t = Some x"
  then show "py_float rt (PStr t) = Inr x" by simp
qed

theorem fields_printed_as_floats_witness:
  "fst (create_influxdb_line sample_runtime sample_env ''1234'' ''test'' 0 (Some 1) None sample_heap)
     = Inr ''test,dev-id=1234,site=lab hum=21.5,temp=42.0 1619827200000000000''
   \<and> fst (create_influxdb_line sample_runtime sample_env ''1234'' ''test'' 0 None None sample_heap_temp)
     = Inr ''test,dev-id=1234 temp=42.0 1619827200000000000''
   \<and> py_float sample_runtime (PInt 42) = Inr (Finite 42)
   \<and> float_repr sample_runtime (Finite 42) = ''42.0''
   \<and> py_float sample_runtime (PStr ''21.5'') = Inr (Finite (43 / 2))
   \<and> (\<exists>fs n.
         time_int sample_env None = Inr n
         \<and> ''test,dev-id=1234 temp=42.0 1619827200000000000''
             = ''test'' @ '',''
               @ join '','' (map (kv_str sample_runtime)
                   (sorted_items (AList.update ''dev-id'' (PStr ''1234'')
                      (tags_items sample_heap_temp None))))
               @ '' '' @ join '','' (map (kv_str sample_runtime) fs) @ '' '' @ str_int n
         \<and> list_all2 (\<lambda>i j. fst j = fst i
                \<and> (\<exists>x. py_float sample_runtime (snd i) = Inr x \<and> snd j = PFloat x
                       \<and> kv_str sample_runtime j = fst i @ ''='' @ float_repr sample_runtime x))
              (sorted_items (sample_heap_temp ! 0)) fs)"
proof -
  have a: "call_ok sample_heap_temp 0 None" by code_simp
  have b: "None \<noteq> Some (0::nat)" by simp
  have c: "fst (create_influxdb_line sample_runtime sample_env ''1234'' ''test'' 0 None None
             sample_heap_temp)
           = Inr ''test,dev-id=1234 temp=42.0 1619827200000000000''"
    by code_simp
  have d: "fst (create_influxdb_line sample_runtime sample_env ''1234'' ''test'' 0 (Some 1) None sample_heap)
     = Inr ''test,dev-id=1234,site=lab hum=21.5,temp=42.0 1619827200000000000''"
    by (simp only: sample_line fst_conv)
  note th = fields_printed_as_floats [OF a b c]
  have m: "\<bar>42::int\<bar> \<le> 2 ^ 53" by simp
  have digits: "str_int 42 @ ''.0'' = ''42.0''" by code_simp
  from th m have e: "py_float sample_runtime (PInt 42) = Inr (Finite (of_int 42))"
    and f: "float_repr sample_runtime (Finite (of_int 42)) = str_int 42 @ ''.0''"
    by blast+
  have e': "py_float sample_runtime (PInt 42) = Inr (Finite 42)" using e by simp
  have f': "float_repr sample_runtime (Finite 42) = ''42.0''"
    using f unfolding digits by (simp del: float_repr.simps)
  have "float_of_str sample_runtime ''21.5'' = Some (Finite (43 / 2))"
    by (simp add: sample_runtime_def)
  with th have g: "py_float sample_runtime (PStr ''21.5'') = Inr (Finite (43 / 2))" by blast
  from th have h: "\<exists>fs n.
         time_int sample_env None = Inr n
         \<and> ''test,dev-id=1234 temp=42.0 1619827200000000000''
             = ''test'' @ '',''
               @ join '','' (map (kv_str sample_runtime)
                   (sorted_items (AList.update ''dev-id'' (PStr ''1234'')
                      (tags_items sample_heap_temp None))))
               @ '' '' @ join '','' (map (kv_str sample_runtime) fs) @ '' '' @ str_int n
         \<and> list_all2 (\<lambda>i j. fst j = fst i
                \<and> (\<exists>x. py_float sample_runtime (snd i) = Inr x \<and> snd j = PFloat x
                       \<and> kv_str sample_runtime j = fst i @ ''='' @ float_repr sample_runtime x))
              (sorted_items (sample_heap_temp ! 0)) fs"
    by (rule conjunct1)
  from d c e' f' g h show ?thesis by (intro conjI)
qed

section \<open>The dev-id tag\<close>

text \<open>
  Claim C2. Whatever tags dict is given, also one that has a dev-id entry already, the
  tag items a returned line is made of hold the key dev-id exactly once, with the
  device id as value, printed \<^verbatim>\<open>dev-id=\<close> and the device id; and so does the tags
  dict of the record \<^verbatim>\<open>create_influxdb_dict\<close> returns.
\<close>

theorem dev_id_tag_once:
  assumes "case tags_arg of None \<Rightarrow> True | Some ta \<Rightarrow> dict_ok h ta"
  shows "filter (\<lambda>i. fst i = ''dev-id'')
           (sorted_items (AList.update ''dev-id'' (PStr dev_id) (tags_items h tags_arg)))
         = [(''dev-id'', PStr dev_id)]
       \<and> (\<forall>s. fst (create_influxdb_line rt ev dev_id measurement_name fa tags_arg timestamp h) = Inr s
            \<longrightarrow> (\<exists>n. time_int ev timestamp = Inr n
                  \<and> s = measurement_name @ '',''
                      @ join '','' (map (kv_str rt)
                    (sorted_items (AList.update ''dev-id'' (PStr dev_id) (tags_items h tags_arg))))
                      @ '' ''
                      @ join '','' (map (kv_str rt) (sorted_items
                          (snd (create_influxdb_line rt ev dev_id measurement_name fa tags_arg timestamp h)
                             ! fa)))
                      @ '' '' @ str_int n))
       \<and> kv_str rt (''dev-id'', PStr dev_id) = ''dev-id='' @ dev_id
       \<and> (\<forall>r. fst (create_influxdb_dict ev dev_id measurement_name fa tags_arg timestamp h) = Inr r
            \<longrightarrow> filter (\<lambda>i. fst i = ''dev-id'')
                  (snd (create_influxdb_dict ev dev_id measurement_name fa tags_arg timestamp h)
                     ! d_tags r)
                = [(''dev-id'', PStr dev_id)])"
proof -
  have len: "case tags_arg of None \<Rightarrow> True | Some ta \<Rightarrow> ta < length h"
    using assms by (cases tags_arg) (simp_all add: dict_ok_def)
  have dist: "distinct (map fst (tags_items h tags_arg))"
    using assms by (cases tags_arg) (simp_all add: dict_ok_def tags_items_def)
  have once: "filter (\<lambda>i. fst i = ''dev-id'')
        (AList.update ''dev-id'' (PStr dev_id) (tags_items h tags_arg)) = [(''dev-id'', PStr dev_id)]"
    using dist by (rule filter_update_key)
  have tagged: "heap_tagged dev_id tags_arg h ! tags_ref h tags_arg
      = AList.update ''dev-id'' (PStr dev_id) (tags_items h tags_arg)"
    using len by (rule heap_tagged_tags)
  have 1: "filter (\<lambda>i. fst i = ''dev-id'')
           (sorted_items (AList.update ''dev-id'' (PStr dev_id) (tags_items h tags_arg)))
         = [(''dev-id'', PStr dev_id)]"
    by (simp only: filter_sorted_items once)
  have 2: "\<exists>n. time_int ev timestamp = Inr n
                  \<and> s = measurement_name @ '',''
                      @ join '','' (map (kv_str rt)
                    (sorted_items (AList.update ''dev-id'' (PStr dev_id) (tags_items h tags_arg))))
                      @ '' ''
                      @ join '','' (map (kv_str rt) (sorted_items
                          (snd (create_influxdb_line rt ev dev_id measurement_name fa tags_arg timestamp h)
                             ! fa)))
                      @ '' '' @ str_int n"
    if s: "fst (create_influxdb_line rt ev dev_id measurement_name fa tags_arg timestamp h) = Inr s"
    for s
  proof -
    from create_influxdb_line_Inr [OF s] obtain n where n: "time_int ev timestamp = Inr n" ..
    define h1 where "h1 = heap_tagged dev_id tags_arg h"
    obtain r h2 where ff: "float_fields rt (h1 ! fa) fa h1 = (r, h2)"
      by (cases "float_fields rt (h1 ! fa) fa h1")
    have r: "r = None"
      using s unfolding create_influxdb_line_unfold [OF n] Let_def h1_def [symmetric] ff
      by (cases r) simp_all
    have "s = measurement_name @ '',''
                      @ join '','' (map (kv_str rt)
                    (sorted_items (AList.update ''dev-id'' (PStr dev_id) (tags_items h tags_arg))))
                      @ '' ''
                      @ join '','' (map (kv_str rt) (sorted_items
                          (snd (create_influxdb_line rt ev dev_id measurement_name fa tags_arg timestamp h)
                             ! fa)))
                      @ '' '' @ str_int n"
      using s unfolding create_influxdb_line_unfold [OF n] Let_def h1_def [symmetric] ff r
      by (simp add: tagged [unfolded h1_def [symmetric]])
    with n show ?thesis by blast
  qed
  have 3: "kv_str rt (''dev-id'', PStr dev_id) = ''dev-id='' @ dev_id"
    by (simp add: kv_str_def)
  have 4: "filter (\<lambda>i. fst i = ''dev-id'')
                  (snd (create_influxdb_dict ev dev_id measurement_name fa tags_arg timestamp h)
                     ! d_tags r)
                = [(''dev-id'', PStr dev_id)]"
    if r: "fst (create_influxdb_dict ev dev_id measurement_name fa tags_arg timestamp h) = Inr r" for r
  proof -
    have ok: "utc_ok timestamp" using r by (rule create_influxdb_dict_Inr)
    from r have "d_tags r = tags_ref h tags_arg"
      unfolding create_influxdb_dict_unfold [OF ok] by auto
    then show ?thesis
      by (simp add: create_influxdb_dict_unfold [OF ok] tagged once)
  qed
  from 1 2 3 4 show ?thesis by blast
qed

theorem dev_id_tag_once_witness:
  "map_of (sample_heap ! 1) ''dev-id'' = Some (PStr ''old'')
   \<and> filter (\<lambda>i. fst i = ''dev-id'')
        (sorted_items (AList.update ''dev-id'' (PStr ''1234'') (tags_items sample_heap (Some 1))))
      = [(''dev-id'', PStr ''1234'')]
   \<and> fst (create_influxdb_line sample_runtime sample_env ''1234'' ''test'' 0 (Some 1) None sample_heap)
       = Inr ''test,dev-id=1234,site=lab hum=21.5,temp=42.0 1619827200000000000''
   \<and> kv_str sample_runtime (''dev-id'', PStr ''1234'') = ''dev-id='' @ ''1234''
   \<and> filter (\<lambda>i. fst i = ''dev-id'')
        (snd (create_influxdb_dict sample_env ''1234'' ''test'' 0 (Some 1) None sample_heap) ! 1)
      = [(''dev-id'', PStr ''1234'')]"
proof -
  have a: "case Some (1::nat) of None \<Rightarrow> True | Some ta \<Rightarrow> dict_ok sample_heap ta"
    by code_simp
  have old: "map_of (sample_heap ! 1) ''dev-id'' = Some (PStr ''old'')"
    by (simp add: sample_heap_def)
  have d: "fst (create_influxdb_line sample_runtime sample_env ''1234'' ''test'' 0 (Some 1) None sample_heap)
       = Inr ''test,dev-id=1234,site=lab hum=21.5,temp=42.0 1619827200000000000''"
    by (simp only: sample_line fst_conv)
  have r: "fst (create_influxdb_dict sample_env ''1234'' ''test'' 0 (Some 1) None sample_heap)
           = Inr \<lparr>d_measurement = ''test'', d_tags = 1, d_fields = 0,
                   d_time = ''2021-05-01T00:00:00+00:00''\<rparr>"
    by (simp only: sample_dict fst_conv)
  note th = dev_id_tag_once [OF a, of "''1234''" sample_runtime sample_env "''test''" 0 None]
  from th have 1: "filter (\<lambda>i. fst i = ''dev-id'')
        (sorted_items (AList.update ''dev-id'' (PStr ''1234'') (tags_items sample_heap (Some 1))))
      = [(''dev-id'', PStr ''1234'')]"
    by (rule conjunct1)
  from th have 3: "kv_str sample_runtime (''dev-id'', PStr ''1234'') = ''dev-id='' @ ''1234''"
    by blast
  from th r have "filter (\<lambda>i. fst i = ''dev-id'')
        (snd (create_influxdb_dict sample_env ''1234'' ''test'' 0 (Some 1) None sample_heap)
           ! d_tags \<lparr>d_measurement = ''test'', d_tags = 1, d_fields = 0,
                      d_time = ''2021-05-01T00:00:00+00:00''\<rparr>)
      = [(''dev-id'', PStr ''1234'')]"
    by blast
  then have 4: "filter (\<lambda>i. fst i = ''dev-id'')
        (snd (create_influxdb_dict sample_env ''1234'' ''test'' 0 (Some 1) None sample_heap) ! 1)
      = [(''dev-id'', PStr ''1234'')]"
    by simp
  from old 1 d 3 4 show ?thesis by (intro conjI)
qed

section \<open>The order of the items\<close>

text \<open>
  Claim C4. Two stores whose fields dicts are equal as mappings and whose tags dicts
  are equal as mappings, in whatever order their items were inserted: when
  \<^verbatim>\<open>create_influxdb_line\<close> returns a string on the one it returns the same string on
  the other, and when \<^verbatim>\<open>create_influxdb_dict\<close> returns a record on the one it returns
  a record of the same value on the other.
\<close>

theorem reorder_invariance:
  assumes "call_ok h1 fa tags_arg" and "call_ok h2 fa tags_arg"
    and "map_of (h1 ! fa) = map_of (h2 ! fa)"
    and "map_of (tags_items h1 tags_arg) = map_of (tags_items h2 tags_arg)"
  shows "(\<forall>s. fst (create_influxdb_line rt ev dev_id measurement_name fa tags_arg timestamp h1) = Inr s
            \<longrightarrow> fst (create_influxdb_line rt ev dev_id measurement_name fa tags_arg timestamp h2) = Inr s)
       \<and> (\<forall>r1. fst (create_influxdb_dict ev dev_id measurement_name fa tags_arg timestamp h1) = Inr r1
            \<longrightarrow> (\<exists>r2. fst (create_influxdb_dict ev dev_id measurement_name fa tags_arg timestamp h2)
                        = Inr r2
                  \<and> record_value
                      (snd (create_influxdb_dict ev dev_id measurement_name fa tags_arg timestamp h1)) r1
                    = record_value
                      (snd (create_influxdb_dict ev dev_id measurement_name fa tags_arg timestamp h2)) r2))"
proof -
  define F1 where "F1 = heap_tagged dev_id tags_arg h1 ! fa"
  define F2 where "F2 = heap_tagged dev_id tags_arg h2 ! fa"
  define T1 where "T1 = AList.update ''dev-id'' (PStr dev_id) (tags_items h1 tags_arg)"
  define T2 where "T2 = AList.update ''dev-id'' (PStr dev_id) (tags_items h2 tags_arg)"
  have fa: "fa < length h1" "fa < length h2"
    using assms(1,2) by (simp_all add: call_ok_def dict_ok_def)
  have dF: "distinct (map fst F1)" "distinct (map fst F2)"
    unfolding F1_def F2_def using assms(1,2) by (simp_all add: distinct_loop_dict)
  have mF: "map_of F1 = map_of F2"
    unfolding F1_def F2_def using assms(3)
    by (simp add: loop_dict [OF assms(1)] loop_dict [OF assms(2)] update_conv')
  have sF: "set F1 = set F2" using dF mF by (simp add: map_of_inject_set)
  have dT: "distinct (map fst T1)" "distinct (map fst T2)"
    unfolding T1_def T2_def
    using distinct_tags_items [OF assms(1)] distinct_tags_items [OF assms(2)]
    by (simp_all add: distinct_update)
  have mT: "map_of T1 = map_of T2"
    unfolding T1_def T2_def using assms(4) by (simp add: update_conv')
  have tag_seg: "sorted_items T1 = sorted_items T2"
    using dT mT by (rule sorted_items_cong)
  have field_seg: "sorted_items (map (coerce_item rt) F1) = sorted_items (map (coerce_item rt) F2)"
  proof (rule sorted_items_cong)
    show "distinct (map fst (map (coerce_item rt) F1))" using dF(1) by (simp only: map_fst_coerce)
    show "distinct (map fst (map (coerce_item rt) F2))" using dF(2) by (simp only: map_fst_coerce)
    show "map_of (map (coerce_item rt) F1) = map_of (map (coerce_item rt) F2)"
      by (rule ext) (simp add: map_of_coerce mF)
  qed
  have line: "fst (create_influxdb_line rt ev dev_id measurement_name fa tags_arg timestamp h2) = Inr s"
    if s: "fst (create_influxdb_line rt ev dev_id measurement_name fa tags_arg timestamp h1) = Inr s"
    for s
  proof -
    from create_influxdb_line_Inr [OF s] obtain n where n: "time_int ev timestamp = Inr n" ..
    have n1: "numeric rt F1" unfolding F1_def using s by (rule line_Inr_numeric)
    then have n2: "numeric rt F2" by (simp add: numeric_iff sF)
    have "fst (create_influxdb_line rt ev dev_id measurement_name fa tags_arg timestamp h1)
        = Inr (measurement_name @ '','' @ join '','' (map (kv_str rt) (sorted_items T1)) @ '' ''
               @ join '','' (map (kv_str rt) (sorted_items (map (coerce_item rt) F1)))
               @ '' '' @ str_int n)"
      using create_influxdb_line_numeric [OF fa(1) call_ok_tags [OF assms(1)] _ _ n, of dev_id rt
          measurement_name] dF(1) n1
      by (simp add: F1_def T1_def)
    moreover have "fst (create_influxdb_line rt ev dev_id measurement_name fa tags_arg timestamp h2)
        = Inr (measurement_name @ '','' @ join '','' (map (kv_str rt) (sorted_items T2)) @ '' ''
               @ join '','' (map (kv_str rt) (sorted_items (map (coerce_item rt) F2)))
               @ '' '' @ str_int n)"
      using create_influxdb_line_numeric [OF fa(2) call_ok_tags [OF assms(2)] _ _ n, of dev_id rt
          measurement_name] dF(2) n2
      by (simp add: F2_def T2_def)
    ultimately show ?thesis using s by (simp add: tag_seg field_seg)
  qed
  have rec: "\<exists>r2. fst (create_influxdb_dict ev dev_id measurement_name fa tags_arg timestamp h2)
                        = Inr r2
                  \<and> record_value
                      (snd (create_influxdb_dict ev dev_id measurement_name fa tags_arg timestamp h1)) r1
                    = record_value
                      (snd (create_influxdb_dict ev dev_id measurement_name fa tags_arg timestamp h2)) r2"
    if r1: "fst (create_influxdb_dict ev dev_id measurement_name fa tags_arg timestamp h1) = Inr r1"
    for r1
  proof -
    have ok: "utc_ok timestamp" using r1 by (rule create_influxdb_dict_Inr)
    define iso where "iso = isoformat (case timestamp of
                                 None \<Rightarrow> \<lparr>instant_us = now_us ev, utcoffset_us = 0\<rparr>
                               | Some t \<Rightarrow> t\<lparr>utcoffset_us := 0\<rparr>)"
    have r1': "r1 = \<lparr>d_measurement = measurement_name, d_tags = tags_ref h1 tags_arg, d_fields = fa,
                     d_time = iso\<rparr>"
      using r1 unfolding create_influxdb_dict_unfold [OF ok] iso_def by simp
    have "record_value (heap_tagged dev_id tags_arg h1) r1
      = record_value (heap_tagged dev_id tags_arg h2)
           \<lparr>d_measurement = measurement_name, d_tags = tags_ref h2 tags_arg, d_fields = fa,
            d_time = iso\<rparr>"
      using mT mF unfolding r1'
      by (simp add: record_value_def heap_tagged_tags [OF call_ok_tags [OF assms(1)]]
          heap_tagged_tags [OF call_ok_tags [OF assms(2)]] T1_def T2_def F1_def F2_def)
    then show ?thesis
      unfolding create_influxdb_dict_unfold [OF ok] iso_def by simp
  qed
  from line rec show ?thesis by blast
qed

theorem reorder_invariance_witness:
  "sample_heap \<noteq> sample_heap_reordered
   \<and> fst (create_influxdb_line sample_runtime sample_env ''1234'' ''test'' 0 (Some 1) None sample_heap)
       = Inr ''test,dev-id=1234,site=lab hum=21.5,temp=42.0 1619827200000000000''
   \<and> fst (create_influxdb_line sample_runtime sample_env ''1234'' ''test'' 0 (Some 1) None
            sample_heap_reordered)
       = Inr ''test,dev-id=1234,site=lab hum=21.5,temp=42.0 1619827200000000000''
   \<and> (\<exists>r2. fst (create_influxdb_dict sample_env ''1234'' ''test'' 0 (Some 1) None sample_heap_reordered)
              = Inr r2
         \<and> record_value (snd (create_influxdb_dict sample_env ''1234'' ''test'' 0 (Some 1) None sample_heap))
             \<lparr>d_measurement = ''test'', d_tags = 1, d_fields = 0,
              d_time = ''2021-05-01T00:00:00+00:00''\<rparr>
           = record_value
               (snd (create_influxdb_dict sample_env ''1234'' ''test'' 0 (Some 1) None
                  sample_heap_reordered)) r2)"
proof -
  have a: "call_ok sample_heap 0 (Some 1)" by (rule sample_call_ok)
  have b: "call_ok sample_heap_reordered 0 (Some 1)" by code_simp
  have c: "map_of (sample_heap ! 0) = map_of (sample_heap_reordered ! 0)"
    by (auto simp: sample_heap_def sample_heap_reordered_def fun_eq_iff)
  have d: "map_of (tags_items sample_heap (Some 1)) = map_of (tags_items sample_heap_reordered (Some 1))"
    by (auto simp: sample_heap_def sample_heap_reordered_def tags_items_def fun_eq_iff)
  have e: "sample_heap \<noteq> sample_heap_reordered"
    by (simp add: sample_heap_def sample_heap_reordered_def)
  have f: "fst (create_influxdb_line sample_runtime sample_env ''1234'' ''test'' 0 (Some 1) None sample_heap)
       = Inr ''test,dev-id=1234,site=lab hum=21.5,temp=42.0 1619827200000000000''"
    by (simp only: sample_line fst_conv)
  have r: "fst (create_influxdb_dict sample_env ''1234'' ''test'' 0 (Some 1) None sample_heap)
           = Inr \<lparr>d_measurement = ''test'', d_tags = 1, d_fields = 0,
                   d_time = ''2021-05-01T00:00:00+00:00''\<rparr>"
    by (simp only: sample_dict fst_conv)
  note inv = reorder_invariance [OF a b c d, of sample_runtime sample_env "''1234''" "''test''" None]
  from inv f have g: "fst (create_influxdb_line sample_runtime sample_env ''1234'' ''test'' 0 (Some 1) None
            sample_heap_reordered)
       = Inr ''test,dev-id=1234,site=lab hum=21.5,temp=42.0 1619827200000000000''"
    by blast
  from inv r have k: "\<exists>r2. fst (create_influxdb_dict sample_env ''1234'' ''test'' 0 (Some 1) None sample_heap_reordered)
              = Inr r2
         \<and> record_value (snd (create_influxdb_dict sample_env ''1234'' ''test'' 0 (Some 1) None sample_heap))
             \<lparr>d_measurement = ''test'', d_tags = 1, d_fields = 0,
              d_time = ''2021-05-01T00:00:00+00:00''\<rparr>
           = record_value
               (snd (create_influxdb_dict sample_env ''1234'' ''test'' 0 (Some 1) None
                  sample_heap_reordered)) r2"
    by blast
  from e f g k show ?thesis by (intro conjI)
qed

section \<open>Values that are not numbers\<close>

text \<open>
  Claim C5, for a timestamp the first lines accept, with the fields dict kept apart
  from the tags dict: if \<^verbatim>\<open>float\<close> rejects some value of the fields dict,
  \<^verbatim>\<open>create_influxdb_line\<close> raises, and what it raises is the error \<^verbatim>\<open>float\<close> raises on
  one of the values; if \<^verbatim>\<open>float\<close> accepts every value, the loop converts them all and
  the call returns a string. The formatter has no client: nothing is sent while it
  runs, and a caller that passes its result on never does when it raises.
\<close>

theorem non_numeric_field_raises:
  assumes "call_ok h fa tags_arg" and "tags_arg \<noteq> Some fa" and "utc_ok timestamp"
  shows "(\<not> numeric rt (h ! fa) \<longrightarrow>
            (\<exists>e. fst (create_influxdb_line rt ev dev_id measurement_name fa tags_arg timestamp h) = Inl e
                 \<and> (\<exists>i \<in> set (h ! fa). py_float rt (snd i) = Inl e)))
       \<and> (numeric rt (h ! fa) \<longrightarrow>
            (\<exists>s. fst (create_influxdb_line rt ev dev_id measurement_name fa tags_arg timestamp h) = Inr s)
            \<and> snd (create_influxdb_line rt ev dev_id measurement_name fa tags_arg timestamp h) ! fa
                = map (coerce_item rt) (h ! fa))"
proof (intro conjI impI)
  from assms(3) obtain n where n: "time_int ev timestamp = Inr n"
    using time_int_utc_ok [of ev timestamp] by blast
  have fa: "fa < length h" using assms(1) by (simp add: call_ok_def dict_ok_def)
  have same: "heap_tagged dev_id tags_arg h ! fa = h ! fa"
    using fa assms(2) by (rule heap_tagged_other)
  have len: "fa < length (heap_tagged dev_id tags_arg h)"
    using fa length_heap_tagged [of h dev_id tags_arg] by simp
  {
    assume "\<not> numeric rt (h ! fa)"
    then have "\<not> numeric rt (heap_tagged dev_id tags_arg h ! fa)" by (simp add: same)
    from line_not_numeric [OF this n, of measurement_name]
    show "\<exists>e. fst (create_influxdb_line rt ev dev_id measurement_name fa tags_arg timestamp h) = Inl e
                 \<and> (\<exists>i \<in> set (h ! fa). py_float rt (snd i) = Inl e)"
      unfolding same .
  next
    assume num: "numeric rt (h ! fa)"
    with assms(1,2) n show "\<exists>s. fst (create_influxdb_line rt ev dev_id measurement_name fa tags_arg timestamp h) = Inr s"
      by (simp add: create_influxdb_line_plain)
    from assms(1,2) num n len
    show "snd (create_influxdb_line rt ev dev_id measurement_name fa tags_arg timestamp h) ! fa
                = map (coerce_item rt) (h ! fa)"
      by (simp add: create_influxdb_line_plain)
  }
qed

theorem non_numeric_field_raises_witness:
  "\<not> numeric sample_runtime (sample_heap_wet ! 0)
   \<and> fst (create_influxdb_line sample_runtime sample_env ''1234'' ''test'' 0 (Some 1) None
            sample_heap_wet) = Inl ValueError
   \<and> (\<exists>e. fst (create_influxdb_line sample_runtime sample_env ''1234'' ''test'' 0 (Some 1) None
                 sample_heap_wet) = Inl e
          \<and> (\<exists>i \<in> set (sample_heap_wet ! 0). py_float sample_runtime (snd i) = Inl e))
   \<and> numeric sample_runtime (sample_heap ! 0)
   \<and> (\<exists>s. fst (create_influxdb_line sample_runtime sample_env ''1234'' ''test'' 0 (Some 1) None sample_heap) = Inr s)
   \<and> snd (create_influxdb_line sample_runtime sample_env ''1234'' ''test'' 0 (Some 1) None sample_heap) ! 0
       = map (coerce_item sample_runtime) (sample_heap ! 0)"
proof -
  have a: "call_ok sample_heap_wet 0 (Some 1)" by code_simp
  have a': "call_ok sample_heap 0 (Some 1)" by (rule sample_call_ok)
  have b: "Some (1::nat) \<noteq> Some 0" by simp
  have u: "utc_ok None" by (simp add: utc_ok_def)
  have c: "\<not> numeric sample_runtime (sample_heap_wet ! 0)" by code_simp
  have c': "numeric sample_runtime (sample_heap ! 0)" by (rule sample_numeric)
  have d: "fst (create_influxdb_line sample_runtime sample_env ''1234'' ''test'' 0 (Some 1) None
            sample_heap_wet) = Inl ValueError"
    by code_simp
  note wet = non_numeric_field_raises [OF a b u, of sample_runtime sample_env "''1234''" "''test''"]
  note dry = non_numeric_field_raises [OF a' b u, of sample_runtime sample_env "''1234''" "''test''"]
  from wet c have 1: "\<exists>e. fst (create_influxdb_line sample_runtime sample_env ''1234'' ''test'' 0 (Some 1) None
                 sample_heap_wet) = Inl e
          \<and> (\<exists>i \<in> set (sample_heap_wet ! 0). py_float sample_runtime (snd i) = Inl e)"
    by blast
  from dry c' have 2: "\<exists>s. fst (create_influxdb_line sample_runtime sample_env ''1234'' ''test'' 0 (Some 1) None sample_heap) = Inr s"
    and 3: "snd (create_influxdb_line sample_runtime sample_env ''1234'' ''test'' 0 (Some 1) None sample_heap) ! 0
       = map (coerce_item sample_runtime) (sample_heap ! 0)"
    by blast+
  from c d 1 c' 2 3 show ?thesis by (intro conjI)
qed

text \<open>
  Claim C5 as stated, for every call, fails at 0001-01-01T00:00:00+02:00: with the
  numeric fields \<^verbatim>\<open>{"temp": 42, "hum": "21.5"}\<close> the call raises OverflowError in its
  first lines and the fields are left as they were; with a value \<^verbatim>\<open>float\<close> rejects
  by a ValueError the call raises the same OverflowError, not that one.
\<close>

theorem non_numeric_field_raises_counterexample:
  "numeric sample_runtime (sample_heap ! 0)
   \<and> create_influxdb_line sample_runtime sample_env ''1234'' ''test'' 0 (Some 1) (Some sample_first)
        sample_heap
       = (Inl OverflowError, sample_heap)
   \<and> sample_heap ! 0 = [(''temp'', PInt 42), (''hum'', PStr ''21.5'')]
   \<and> py_float sample_runtime (PInt 42) = Inr (Finite 42)
   \<and> py_float sample_runtime (PStr ''wet'') = Inl ValueError
   \<and> sample_heap_wet ! 0 = [(''temp'', PInt 42), (''hum'', PStr ''wet'')]
   \<and> create_influxdb_line sample_runtime sample_env ''1234'' ''test'' 0 (Some 1) (Some sample_first)
        sample_heap_wet
       = (Inl OverflowError, sample_heap_wet)"
  by code_simp

section \<open>The measurement dict\<close>

text \<open>
  Claim C7, for a timestamp the first lines accept. \<^verbatim>\<open>create_influxdb_dict\<close> returns
  the dict of the four keys measurement, tags, fields and time: the measurement name as
  given; the tags dict, which holds the items given with dev-id set to the device id;
  the fields dict as given, the very object, its items untouched when it is not also
  the tags dict; and the ISO 8601 text of the timestamp moved to UTC, or of the
  clock's time in UTC when none is given, which ends in \<^verbatim>\<open>+00:00\<close> either way.
\<close>

theorem create_influxdb_dict_record:
  assumes "fa < length h" and "case tags_arg of None \<Rightarrow> True | Some ta \<Rightarrow> ta < length h"
    and "utc_ok timestamp"
  shows "fst (create_influxdb_dict ev dev_id measurement_name fa tags_arg timestamp h)
           = Inr \<lparr>d_measurement = measurement_name, d_tags = tags_ref h tags_arg, d_fields = fa,
                  d_time = isoformat (case timestamp of
                                 None \<Rightarrow> \<lparr>instant_us = now_us ev, utcoffset_us = 0\<rparr>
                               | Some t \<Rightarrow> t\<lparr>utcoffset_us := 0\<rparr>)\<rparr>
       \<and> (\<exists>p. isoformat (case timestamp of
                                 None \<Rightarrow> \<lparr>instant_us = now_us ev, utcoffset_us = 0\<rparr>
                               | Some t \<Rightarrow> t\<lparr>utcoffset_us := 0\<rparr>)
                = p @ ''+00:00'')
       \<and> snd (create_influxdb_dict ev dev_id measurement_name fa tags_arg timestamp h) ! tags_ref h tags_arg
           = AList.update ''dev-id'' (PStr dev_id) (tags_items h tags_arg)
       \<and> (tags_arg \<noteq> Some fa \<longrightarrow>
            snd (create_influxdb_dict ev dev_id measurement_name fa tags_arg timestamp h) ! fa = h ! fa)"
proof -
  have "utcoffset_us (case timestamp of
                        None \<Rightarrow> \<lparr>instant_us = now_us ev, utcoffset_us = 0\<rparr>
                      | Some t \<Rightarrow> t\<lparr>utcoffset_us := 0\<rparr>) = 0"
    by (cases timestamp) simp_all
  then have "\<exists>p. isoformat (case timestamp of
                                 None \<Rightarrow> \<lparr>instant_us = now_us ev, utcoffset_us = 0\<rparr>
                               | Some t \<Rightarrow> t\<lparr>utcoffset_us := 0\<rparr>)
                = p @ ''+00:00''"
    by (rule isoformat_utc_suffix)
  then show ?thesis
    using heap_tagged_tags [OF assms(2), of dev_id] heap_tagged_other [OF assms(1), of tags_arg dev_id]
    by (simp add: create_influxdb_dict_unfold [OF assms(3)])
qed

theorem create_influxdb_dict_record_witness:
  "isoformat sample_timestamp = ''2021-05-01T02:00:00+02:00''
   \<and> fst (create_influxdb_dict sample_env ''1234'' ''test'' 0 (Some 1) (Some sample_timestamp) sample_heap)
       = Inr \<lparr>d_measurement = ''test'', d_tags = 1, d_fields = 0,
              d_time = ''2021-05-01T00:00:00+00:00''\<rparr>
   \<and> snd (create_influxdb_dict sample_env ''1234'' ''test'' 0 (Some 1) (Some sample_timestamp) sample_heap) ! 1
       = [(''site'', PStr ''lab''), (''dev-id'', PStr ''1234'')]
   \<and> snd (create_influxdb_dict sample_env ''1234'' ''test'' 0 (Some 1) (Some sample_timestamp) sample_heap) ! 0
       = [(''temp'', PInt 42), (''hum'', PStr ''21.5'')]
   \<and> fst (create_influxdb_dict sample_env ''1234'' ''test'' 0 None None sample_heap_temp)
       = Inr \<lparr>d_measurement = ''test'', d_tags = 1, d_fields = 0,
              d_time = ''2021-05-01T00:00:00+00:00''\<rparr>
   \<and> snd (create_influxdb_dict sample_env ''1234'' ''test'' 0 None None sample_heap_temp) ! 1
       = [(''dev-id'', PStr ''1234'')]"
proof -
  have a: "0 < length sample_heap" by (simp add: sample_heap_def)
  have b: "case Some (1::nat) of None \<Rightarrow> True | Some ta \<Rightarrow> ta < length sample_heap"
    by (simp add: sample_heap_def)
  have c: "Some (1::nat) \<noteq> Some 0" by simp
  have u: "utc_ok (Some sample_timestamp)" by code_simp
  have a': "0 < length sample_heap_temp" by (simp add: sample_heap_temp_def)
  have b': "case None of None \<Rightarrow> True | Some ta \<Rightarrow> ta < length sample_heap_temp" by simp
  have u': "utc_ok None" by (simp add: utc_ok_def)
  have e1: "isoformat sample_timestamp = ''2021-05-01T02:00:00+02:00''" by code_simp
  have e2: "isoformat (case Some sample_timestamp of
                         None \<Rightarrow> \<lparr>instant_us = now_us sample_env, utcoffset_us = 0\<rparr>
                       | Some t \<Rightarrow> t\<lparr>utcoffset_us := 0\<rparr>) = ''2021-05-01T00:00:00+00:00''"
    by code_simp
  have e2': "isoformat (case None of
                         None \<Rightarrow> \<lparr>instant_us = now_us sample_env, utcoffset_us = 0\<rparr>
                       | Some t \<Rightarrow> t\<lparr>utcoffset_us := 0\<rparr>) = ''2021-05-01T00:00:00+00:00''"
    by code_simp
  have e3: "tags_ref sample_heap (Some 1) = 1" by (simp add: tags_ref_def)
  have e3': "tags_ref sample_heap_temp None = 1" by (simp add: tags_ref_def sample_heap_temp_def)
  have e4: "AList.update ''dev-id'' (PStr ''1234'') (tags_items sample_heap (Some 1))
            = [(''site'', PStr ''lab''), (''dev-id'', PStr ''1234'')]"
    by (simp add: tags_items_def sample_heap_def)
  have e4': "AList.update ''dev-id'' (PStr ''1234'') (tags_items sample_heap_temp None)
            = [(''dev-id'', PStr ''1234'')]"
    by (simp add: tags_items_def)
  have e5: "sample_heap ! 0 = [(''temp'', PInt 42), (''hum'', PStr ''21.5'')]"
    by (simp add: sample_heap_def)
  note given = create_influxdb_dict_record [OF a b u, of sample_env "''1234''" "''test''",
      unfolded e2 e3 e4]
  note clock = create_influxdb_dict_record [OF a' b' u', of sample_env "''1234''" "''test''",
      unfolded e2' e3' e4']
  from given c e5 have 1: "fst (create_influxdb_dict sample_env ''1234'' ''test'' 0 (Some 1) (Some sample_timestamp) sample_heap)
       = Inr \<lparr>d_measurement = ''test'', d_tags = 1, d_fields = 0,
              d_time = ''2021-05-01T00:00:00+00:00''\<rparr>"
    and 2: "snd (create_influxdb_dict sample_env ''1234'' ''test'' 0 (Some 1) (Some sample_timestamp) sample_heap) ! 1
       = [(''site'', PStr ''lab''), (''dev-id'', PStr ''1234'')]"
    and 3: "snd (create_influxdb_dict sample_env ''1234'' ''test'' 0 (Some 1) (Some sample_timestamp) sample_heap) ! 0
       = [(''temp'', PInt 42), (''hum'', PStr ''21.5'')]"
    by simp_all
  from clock have 4: "fst (create_influxdb_dict sample_env ''1234'' ''test'' 0 None None sample_heap_temp)
       = Inr \<lparr>d_measurement = ''test'', d_tags = 1, d_fields = 0,
              d_time = ''2021-05-01T00:00:00+00:00''\<rparr>"
    and 5: "snd (create_influxdb_dict sample_env ''1234'' ''test'' 0 None None sample_heap_temp) ! 1
       = [(''dev-id'', PStr ''1234'')]"
    by simp_all
  from e1 1 2 3 4 5 show ?thesis by (intro conjI)
qed

text \<open>
  Claim C7 as stated, for every input, fails at 9999-12-31T23:00:00-02:00, an hour
  past the last \<^verbatim>\<open>datetime\<close> in UTC: the call raises OverflowError, returns no record
  and leaves the store as it was.
\<close>

theorem create_influxdb_dict_record_counterexample:
  "isoformat sample_last = ''9999-12-31T23:00:00-02:00''
   \<and> create_influxdb_dict sample_env ''1234'' ''test'' 0 (Some 1) (Some sample_last) sample_heap
       = (Inl OverflowError, sample_heap)"
  by code_simp

section \<open>The write\<close>

text \<open>
  Claim C8, at a client whose \<^verbatim>\<open>write\<close> raises: \<^verbatim>\<open>write_data\<close> has taken the write
  channel and called \<^verbatim>\<open>write\<close>; the error leaves the function and \<^verbatim>\<open>close\<close> is not
  called.
\<close>

theorem write_data_write_raises:
  "write_data \<lparr>write_api_raises = None, write_raises = (\<lambda>b g p. Some e), close_raises = c\<rparr>
       bucket org data_obj
     = (Some e, [Write_api, Write bucket org data_obj])
   \<and> Close \<notin> set (snd (write_data
         \<lparr>write_api_raises = None, write_raises = (\<lambda>b g p. Some e), close_raises = c\<rparr>
         bucket org data_obj))"
  by (simp add: write_data_def)

section \<open>The caller's dicts after a call\<close>

text \<open>
  Claim C9, for a timestamp the first lines accept. Given a tags dict, both
  formatters update that very dict: after \<^verbatim>\<open>create_influxdb_dict\<close> the store holds at
  the caller's reference the items given with dev-id set to the device id, every other
  key keeping its value, and the record returned refers to the same dict; after
  \<^verbatim>\<open>create_influxdb_line\<close> it holds the same, whether the loop over the fields returns
  or raises, when the tags dict is not also the fields dict.
\<close>

theorem tags_updated_in_place:
  assumes "ta < length h" and "utc_ok timestamp"
  shows "(\<exists>r. fst (create_influxdb_dict ev dev_id measurement_name fa (Some ta) timestamp h) = Inr r \<and> d_tags r = ta)
       \<and> snd (create_influxdb_dict ev dev_id measurement_name fa (Some ta) timestamp h) ! ta
           = AList.update ''dev-id'' (PStr dev_id) (h ! ta)
       \<and> map_of (snd (create_influxdb_dict ev dev_id measurement_name fa (Some ta) timestamp h) ! ta)
           = (map_of (h ! ta))(''dev-id'' \<mapsto> PStr dev_id)
       \<and> (ta \<noteq> fa \<longrightarrow>
            snd (create_influxdb_line rt ev dev_id measurement_name fa (Some ta) timestamp h) ! ta
              = AList.update ''dev-id'' (PStr dev_id) (h ! ta)
            \<and> map_of (snd (create_influxdb_line rt ev dev_id measurement_name fa (Some ta) timestamp h) ! ta)
              = (map_of (h ! ta))(''dev-id'' \<mapsto> PStr dev_id))"
proof -
  from assms(2) obtain n where n: "time_int ev timestamp = Inr n"
    using time_int_utc_ok [of ev timestamp] by blast
  have tagged: "heap_tagged dev_id (Some ta) h ! ta = AList.update ''dev-id'' (PStr dev_id) (h ! ta)"
    using assms(1) by (simp add: heap_tagged_def)
  have "snd (create_influxdb_line rt ev dev_id measurement_name fa (Some ta) timestamp h) ! ta
        = AList.update ''dev-id'' (PStr dev_id) (h ! ta)" if "ta \<noteq> fa"
    using line_heap_other [OF that n, of rt dev_id measurement_name "Some ta" h]
    by (simp only: tagged)
  then show ?thesis
    by (simp add: create_influxdb_dict_unfold [OF assms(2)] tags_ref_def tagged update_conv')
qed

theorem tags_updated_in_place_witness:
  "sample_heap ! 1 = [(''site'', PStr ''lab''), (''dev-id'', PStr ''old'')]
   \<and> (\<exists>r. fst (create_influxdb_dict sample_env ''1234'' ''test'' 0 (Some 1) None sample_heap) = Inr r \<and> d_tags r = 1)
   \<and> snd (create_influxdb_dict sample_env ''1234'' ''test'' 0 (Some 1) None sample_heap) ! 1
       = [(''site'', PStr ''lab''), (''dev-id'', PStr ''1234'')]
   \<and> snd (create_influxdb_line sample_runtime sample_env ''1234'' ''test'' 0 (Some 1) None sample_heap) ! 1
       = [(''site'', PStr ''lab''), (''dev-id'', PStr ''1234'')]"
proof -
  have a: "1 < length sample_heap" by (simp add: sample_heap_def)
  have u: "utc_ok None" by (simp add: utc_ok_def)
  have b: "(1::nat) \<noteq> 0" by simp
  have e1: "sample_heap ! 1 = [(''site'', PStr ''lab''), (''dev-id'', PStr ''old'')]"
    by (simp add: sample_heap_def)
  have e2: "AList.update ''dev-id'' (PStr ''1234'') (sample_heap ! 1)
            = [(''site'', PStr ''lab''), (''dev-id'', PStr ''1234'')]"
    by (simp add: sample_heap_def)
  note th = tags_updated_in_place [OF a u, of sample_env "''1234''" "''test''" 0 sample_runtime,
      unfolded e2]
  from th have 1: "\<exists>r. fst (create_influxdb_dict sample_env ''1234'' ''test'' 0 (Some 1) None sample_heap) = Inr r \<and> d_tags r = 1"
    by (rule conjunct1)
  from th have 2: "snd (create_influxdb_dict sample_env ''1234'' ''test'' 0 (Some 1) None sample_heap) ! 1
       = [(''site'', PStr ''lab''), (''dev-id'', PStr ''1234'')]"
    by blast
  from th b have 3: "snd (create_influxdb_line sample_runtime sample_env ''1234'' ''test'' 0 (Some 1) None sample_heap) ! 1
       = [(''site'', PStr ''lab''), (''dev-id'', PStr ''1234'')]"
    by blast
  from e1 1 2 3 show ?thesis by (intro conjI)
qed

text \<open>
  Claim C9 as stated, for every call with a tags dict, fails at
  0001-01-01T00:00:00+02:00: both formatters raise OverflowError before the update,
  and the caller's tags dict \<^verbatim>\<open>{"site": "lab"}\<close> has no dev-id entry afterwards.
\<close>

theorem tags_updated_in_place_counterexample:
  "sample_heap_site ! 1 = [(''site'', PStr ''lab'')]
   \<and> fst (create_influxdb_dict sample_env ''1234'' ''test'' 0 (Some 1) (Some sample_first)
            sample_heap_site) = Inl OverflowError
   \<and> snd (create_influxdb_dict sample_env ''1234'' ''test'' 0 (Some 1) (Some sample_first)
            sample_heap_site) ! 1 = [(''site'', PStr ''lab'')]
   \<and> fst (create_influxdb_line sample_runtime sample_env ''1234'' ''test'' 0 (Some 1)
            (Some sample_first) sample_heap_site) = Inl OverflowError
   \<and> snd (create_influxdb_line sample_runtime sample_env ''1234'' ''test'' 0 (Some 1)
            (Some sample_first) sample_heap_site) ! 1 = [(''site'', PStr ''lab'')]"
  by code_simp

text \<open>
  Claim C10. \<^verbatim>\<open>create_influxdb_line\<close> also updates the fields dict it is given, kept
  apart from the tags dict: after a call that returns, the store holds at the caller's
  reference the same keys in the same order, each value replaced by the float
  \<^verbatim>\<open>float\<close> makes of it.
\<close>

theorem fields_coerced_in_place:
  assumes "call_ok h fa tags_arg" and "tags_arg \<noteq> Some fa"
    and "fst (create_influxdb_line rt ev dev_id measurement_name fa tags_arg timestamp h) = Inr s"
  shows "list_all2 (\<lambda>i j. fst j = fst i \<and> (\<exists>x. py_float rt (snd i) = Inr x \<and> snd j = PFloat x))
           (h ! fa)
           (snd (create_influxdb_line rt ev dev_id measurement_name fa tags_arg timestamp h) ! fa)
       \<and> map fst (snd (create_influxdb_line rt ev dev_id measurement_name fa tags_arg timestamp h) ! fa)
         = map fst (h ! fa)"
proof -
  from create_influxdb_line_Inr [OF assms(3)] obtain n where n: "time_int ev timestamp = Inr n" ..
  have fa: "fa < length h" and dist: "distinct (map fst (h ! fa))"
    using assms(1) by (simp_all add: call_ok_def dict_ok_def)
  have same: "heap_tagged dev_id tags_arg h ! fa = h ! fa"
    using fa assms(2) by (rule heap_tagged_other)
  have num: "numeric rt (h ! fa)" using line_Inr_numeric [OF assms(3)] by (simp only: same)
  have len: "fa < length (heap_tagged dev_id tags_arg h)"
    using fa length_heap_tagged [of h dev_id tags_arg] by simp
  have "snd (create_influxdb_line rt ev dev_id measurement_name fa tags_arg timestamp h)
        = (heap_tagged dev_id tags_arg h)[fa := map (coerce_item rt) (h ! fa)]"
    using assms(1,2) num n by (simp add: create_influxdb_line_plain)
  then have after: "snd (create_influxdb_line rt ev dev_id measurement_name fa tags_arg timestamp h) ! fa
        = map (coerce_item rt) (h ! fa)"
    using len by simp
  have "fst (coerce_item rt i) = fst i
        \<and> (\<exists>x. py_float rt (snd i) = Inr x \<and> snd (coerce_item rt i) = PFloat x)"
    if "i \<in> set (h ! fa)" for i
  proof -
    from num that obtain x where "py_float rt (snd i) = Inr x" by (auto simp: numeric_iff)
    then show ?thesis by (simp add: coerce_item_def)
  qed
  then have "list_all2 (\<lambda>i j. fst j = fst i \<and> (\<exists>x. py_float rt (snd i) = Inr x \<and> snd j = PFloat x))
           (h ! fa) (map (coerce_item rt) (h ! fa))"
    by (simp add: list_all2_map2 list_all2_same)
  then show ?thesis by (simp only: after map_fst_coerce)
qed

theorem fields_coerced_in_place_witness:
  "sample_heap ! 0 = [(''temp'', PInt 42), (''hum'', PStr ''21.5'')]
   \<and> snd (create_influxdb_line sample_runtime sample_env ''1234'' ''test'' 0 (Some 1) None sample_heap) ! 0
       = [(''temp'', PFloat (Finite 42)), (''hum'', PFloat (Finite (43 / 2)))]
   \<and> list_all2 (\<lambda>i j. fst j = fst i
          \<and> (\<exists>x. py_float sample_runtime (snd i) = Inr x \<and> snd j = PFloat x))
        (sample_heap ! 0)
        (snd (create_influxdb_line sample_runtime sample_env ''1234'' ''test'' 0 (Some 1) None sample_heap) ! 0)
   \<and> map fst (snd (create_influxdb_line sample_runtime sample_env ''1234'' ''test'' 0 (Some 1) None sample_heap) ! 0)
       = map fst (sample_heap ! 0)"
proof -
  have a: "call_ok sample_heap 0 (Some 1)" by (rule sample_call_ok)
  have b: "Some (1::nat) \<noteq> Some 0" by simp
  have c: "fst (create_influxdb_line sample_runtime sample_env ''1234'' ''test'' 0 (Some 1) None sample_heap)
       = Inr ''test,dev-id=1234,site=lab hum=21.5,temp=42.0 1619827200000000000''"
    by (simp only: sample_line fst_conv)
  have e1: "sample_heap ! 0 = [(''temp'', PInt 42), (''hum'', PStr ''21.5'')]"
    by (simp add: sample_heap_def)
  have e2: "snd (create_influxdb_line sample_runtime sample_env ''1234'' ''test'' 0 (Some 1) None sample_heap) ! 0
       = [(''temp'', PFloat (Finite 42)), (''hum'', PFloat (Finite (43 / 2)))]"
    by (simp only: sample_line snd_conv nth_Cons_0)
  from e1 e2 fields_coerced_in_place [OF a b c]
  show ?thesis by (intro conjI) (simp_all only:)
qed

end
